theory Spec2Isabelle
  imports Complex_Main "HOL-Library.Word" "HOL-Library.Char_ord" "HOL-Library.List_Lexorder"
begin

unbundle bit_operations_syntax

chapter \<open>Fraud-score pipeline: feature contract, cleaning, encoding, assembly, scoring\<close>

text \<open>
  The pipeline consists of four independent scripts: two warehouse extractors
  (\<^verbatim>\<open>glue_scripts/extract_training_data.py\<close>, \<^verbatim>\<open>glue_scripts/extract_inference_data.py\<close>),
  a trainer (\<^verbatim>\<open>sagemaker/training_script.py\<close>), a predictor (\<^verbatim>\<open>sagemaker/inference.py\<close>),
  and a loader (\<^verbatim>\<open>glue_scripts/load_scores_to_snowflake.py\<close>) that writes scores back.
  Each script declares its own copy of the feature lists; they are embedded here one by one,
  under the source's names with the script's name as a suffix.
\<close>

section \<open>Feature contract\<close>

subsection \<open>Feature definitions of \<^verbatim>\<open>glue_scripts/extract_training_data.py\<close>\<close>

definition TARGET_extract_training :: string where
  "TARGET_extract_training = ''IPQS_DEVICE_FP_FRAUD_SCORE''"

definition BOOLEAN_FEATURES_extract_training :: "string list" where
  "BOOLEAN_FEATURES_extract_training =
    [''IP_API_HOSTING'',
     ''IP_API_MOBILE'',
     ''IP_API_PROXY'']"

definition CATEGORICAL_FEATURES_extract_training :: "string list" where
  "CATEGORICAL_FEATURES_extract_training =
    [''IP_API_CITY'',
     ''IP_API_COUNTRY'',
     ''IP_API_COUNTRY_CODE'',
     ''IP_API_ORG'',
     ''IP_API_REGION'',
     ''IP_API_STATUS'',
     ''IP_API_TIMEZONE'',
     ''BROWSERNAME'',
     ''BROWSERVERSION'',
     ''DEVICECATEGORY'',
     ''DEVICETYPE'',
     ''OPERATINGSYSTEM'',
     ''OPERATINGSYSTEMVERSION'',
     ''PROPERTY_NAME'',
     ''PUBLISHER_NAME'',
     ''UTM_CONTENT'',
     ''UTM_TERM'',
     ''UTM_MEDIUM'',
     ''UTM_SOURCE'',
     ''VISITOR_TYPE'',
     ''DOMAIN'',
     ''STATE'',
     ''EMAIL_VERIFICATION_RESPONSE'']"

definition NUMERIC_FEATURES_extract_training :: "string list" where
  "NUMERIC_FEATURES_extract_training =
    [''IP_API_LATITUDE'',
     ''IP_API_LONGITUDE'',
     ''VISIT_COUNT_FORM_COMPLETED_MEASURE'',
     ''VISIT_COUNT_FORM_STARTED_MEASURE'',
     ''VISIT_COUNT_VISIT_TO_PAGE_1_MEASURE'',
     ''VISIT_COUNT_PAGE_1_TO_PAGE_2_MEASURE'',
     ''VISIT_COUNT_PAGE_2_TO_PAGE_3_MEASURE'',
     ''SECONDS_SPENT_FORM_MEASURE'',
     ''SECONDS_SPENT_FORM_COMPLETE_MEASURE'',
     ''SECONDS_SPENT_PAGE_1_TO_2_MEASURE'',
     ''SECONDS_SPENT_PAGE_2_TO_3_MEASURE'',
     ''SECONDS_SPENT_VISIT_TO_PAGE_1_MEASURE'',
     ''SECONDS_SPENT_ZAN_PRIMARY_MEASURE'',
     ''SECONDS_SPENT_ZAN_PRIMARY_COMPLETE_MEASURE'',
     ''SECONDS_SPENT_ZAN_PRIMARY_INCOMPLETE_MEASURE'',
     ''VISIT_COUNT_ZAN_COMPLETED_LESS_THAN_7_SECONDS_MEASURE'',
     ''VISIT_COUNT_ZAN_PRIMARY_COMPLETE_MEASURE'',
     ''VISIT_COUNT_ZAN_PRIMARY_LOAD_MEASURE'',
     ''VISIT_COUNT_ZAN_SPENT_MORE_THAN_5_MINS_MEASURE'',
     ''LTV_PIXEL_CAMPAIGN_CLICKS_MEASURE'',
     ''LTV_PIXEL_CAMPAIGN_IMPRESSIONS_MEASURE'',
     ''LTV_PIXEL_PURCHASE_COUNT_MEASURE'',
     ''LTV_PIXEL_REVENUE_MEASURE'',
     ''LTV_PIXEL_ADVERTISER_COST_MEASURE'',
     ''FICTITIOUS_CHARACTERS_NAME_MEASURE'',
     ''FLAGGED_ADDRESS_MEASURE'',
     ''FLAGGED_NAME_MEASURE'',
     ''FNLN_EMAIL_STRING_MEASURE'',
     ''IPQS_FLAGGED_LOCATION_MEASURE'',
     ''MISSING_ADDRESS_NUMBER_MEASURE'',
     ''MISSING_STREET_TYPE_MEASURE'',
     ''VISITS_WITH_PII_COMPLETE_VISITS'',
     ''RECYCLED_IP_ADDRESS_MEASURE'',
     ''SINGLE_LETTER_STRING_NAME_MEASURE'',
     ''THREE_LETTER_STRING_NAME_MEASURE'',
     ''TWO_LETTER_STRING_NAME_MEASURE'',
     ''THREE_LETTER_STRING_LEFT_RIGHT_NAME_MEASURE'',
     ''VULGAR_WORDS_NAME_MEASURE'',
     ''VISIT_COUNT_ZAN_PRIMARY_INCOMPLETE_MEASURE'',
     ''POSITION_1_ANSWERS_MEASURE'',
     ''CAMPAIGN_CLICKS_MEASURE'',
     ''CAMPAIGN_CONVERSIONS_MEASURE'',
     ''CAMPAIGN_IMPRESSIONS_MEASURE'',
     ''CPA_CLICKS_MEASURE'',
     ''CPA_CONVERSIONS_MEASURE'',
     ''CPA_IMPRESSIONS_MEASURE'',
     ''CPA_REVENUE_MEASURE'',
     ''CPC_CONVERSIONS_MEASURE'',
     ''CPC_IMPRESSIONS_MEASURE'',
     ''CPC_REVENUE_MEASURE'',
     ''CPL_CONVERSIONS_MEASURE'',
     ''CPL_IMPRESSIONS_MEASURE'',
     ''CPL_REVENUE_MEASURE'',
     ''TOTAL_GROSS_REVENUE_MEASURE'',
     ''LAST_POSITION_ANSWERS_MEASURE'',
     ''TOTAL_NET_REVENUE_MEASURE'',
     ''PREPING_SCORE_1_PRIMARY_VISITS'',
     ''PREPING_SCORE_2_PRIMARY_VISITS'',
     ''PREPING_SCORE_3_PRIMARY_VISITS'',
     ''PREPING_SCORE_4_PRIMARY_VISITS'',
     ''PREPING_SCORE_5_PRIMARY_VISITS'',
     ''PRIMARY_GROSS_REVENUE_MEASURE'',
     ''QUESTIONS_ANSWERED_MEASURE'',
     ''QUESTIONS_IMPRESSED_MEASURE'',
     ''QUESTIONS_IMPRESSED_FOR_POSITION_RATE_MEASURE'',
     ''ZAN_SECONDARY_END_OF_PLACEMENT_VISITS_MEASURE'',
     ''QUESTIONS_ANSWERED_FOR_POSITION_RATE_MEASURE'',
     ''ZAN_SECONDARY_PLACEMENT_VISITS_MEASURE'',
     ''SECONDARY_NET_REVENUE_MEASURE'']"

subsection \<open>Feature definitions of \<^verbatim>\<open>glue_scripts/extract_inference_data.py\<close>\<close>

definition TARGET_extract_inference :: string where
  "TARGET_extract_inference = ''IPQS_DEVICE_FP_FRAUD_SCORE''"

definition BOOLEAN_FEATURES_extract_inference :: "string list" where
  "BOOLEAN_FEATURES_extract_inference =
    [''IP_API_HOSTING'',
     ''IP_API_MOBILE'',
     ''IP_API_PROXY'']"

definition CATEGORICAL_FEATURES_extract_inference :: "string list" where
  "CATEGORICAL_FEATURES_extract_inference =
    [''IP_API_CITY'',
     ''IP_API_COUNTRY'',
     ''IP_API_COUNTRY_CODE'',
     ''IP_API_ORG'',
     ''IP_API_REGION'',
     ''IP_API_STATUS'',
     ''IP_API_TIMEZONE'',
     ''BROWSERNAME'',
     ''BROWSERVERSION'',
     ''DEVICECATEGORY'',
     ''DEVICETYPE'',
     ''OPERATINGSYSTEM'',
     ''OPERATINGSYSTEMVERSION'',
     ''PROPERTY_NAME'',
     ''PUBLISHER_NAME'',
     ''UTM_CONTENT'',
     ''UTM_TERM'',
     ''UTM_MEDIUM'',
     ''UTM_SOURCE'',
     ''VISITOR_TYPE'',
     ''DOMAIN'',
     ''STATE'',
     ''EMAIL_VERIFICATION_RESPONSE'']"

definition NUMERIC_FEATURES_extract_inference :: "string list" where
  "NUMERIC_FEATURES_extract_inference =
    [''IP_API_LATITUDE'',
     ''IP_API_LONGITUDE'',
     ''VISIT_COUNT_FORM_COMPLETED_MEASURE'',
     ''VISIT_COUNT_FORM_STARTED_MEASURE'',
     ''VISIT_COUNT_VISIT_TO_PAGE_1_MEASURE'',
     ''VISIT_COUNT_PAGE_1_TO_PAGE_2_MEASURE'',
     ''VISIT_COUNT_PAGE_2_TO_PAGE_3_MEASURE'',
     ''SECONDS_SPENT_FORM_MEASURE'',
     ''SECONDS_SPENT_FORM_COMPLETE_MEASURE'',
     ''SECONDS_SPENT_PAGE_1_TO_2_MEASURE'',
     ''SECONDS_SPENT_PAGE_2_TO_3_MEASURE'',
     ''SECONDS_SPENT_VISIT_TO_PAGE_1_MEASURE'',
     ''SECONDS_SPENT_ZAN_PRIMARY_MEASURE'',
     ''SECONDS_SPENT_ZAN_PRIMARY_COMPLETE_MEASURE'',
     ''SECONDS_SPENT_ZAN_PRIMARY_INCOMPLETE_MEASURE'',
     ''VISIT_COUNT_ZAN_COMPLETED_LESS_THAN_7_SECONDS_MEASURE'',
     ''VISIT_COUNT_ZAN_PRIMARY_COMPLETE_MEASURE'',
     ''VISIT_COUNT_ZAN_PRIMARY_LOAD_MEASURE'',
     ''VISIT_COUNT_ZAN_SPENT_MORE_THAN_5_MINS_MEASURE'',
     ''LTV_PIXEL_CAMPAIGN_CLICKS_MEASURE'',
     ''LTV_PIXEL_CAMPAIGN_IMPRESSIONS_MEASURE'',
     ''LTV_PIXEL_PURCHASE_COUNT_MEASURE'',
     ''LTV_PIXEL_REVENUE_MEASURE'',
     ''LTV_PIXEL_ADVERTISER_COST_MEASURE'',
     ''FICTITIOUS_CHARACTERS_NAME_MEASURE'',
     ''FLAGGED_ADDRESS_MEASURE'',
     ''FLAGGED_NAME_MEASURE'',
     ''FNLN_EMAIL_STRING_MEASURE'',
     ''IPQS_FLAGGED_LOCATION_MEASURE'',
     ''MISSING_ADDRESS_NUMBER_MEASURE'',
     ''MISSING_STREET_TYPE_MEASURE'',
     ''VISITS_WITH_PII_COMPLETE_VISITS'',
     ''RECYCLED_IP_ADDRESS_MEASURE'',
     ''SINGLE_LETTER_STRING_NAME_MEASURE'',
     ''THREE_LETTER_STRING_NAME_MEASURE'',
     ''TWO_LETTER_STRING_NAME_MEASURE'',
     ''THREE_LETTER_STRING_LEFT_RIGHT_NAME_MEASURE'',
     ''VULGAR_WORDS_NAME_MEASURE'',
     ''VISIT_COUNT_ZAN_PRIMARY_INCOMPLETE_MEASURE'',
     ''POSITION_1_ANSWERS_MEASURE'',
     ''CAMPAIGN_CLICKS_MEASURE'',
     ''CAMPAIGN_CONVERSIONS_MEASURE'',
     ''CAMPAIGN_IMPRESSIONS_MEASURE'',
     ''CPA_CLICKS_MEASURE'',
     ''CPA_CONVERSIONS_MEASURE'',
     ''CPA_IMPRESSIONS_MEASURE'',
     ''CPA_REVENUE_MEASURE'',
     ''CPC_CONVERSIONS_MEASURE'',
     ''CPC_IMPRESSIONS_MEASURE'',
     ''CPC_REVENUE_MEASURE'',
     ''CPL_CONVERSIONS_MEASURE'',
     ''CPL_IMPRESSIONS_MEASURE'',
     ''CPL_REVENUE_MEASURE'',
     ''TOTAL_GROSS_REVENUE_MEASURE'',
     ''LAST_POSITION_ANSWERS_MEASURE'',
     ''TOTAL_NET_REVENUE_MEASURE'',
     ''PREPING_SCORE_1_PRIMARY_VISITS'',
     ''PREPING_SCORE_2_PRIMARY_VISITS'',
     ''PREPING_SCORE_3_PRIMARY_VISITS'',
     ''PREPING_SCORE_4_PRIMARY_VISITS'',
     ''PREPING_SCORE_5_PRIMARY_VISITS'',
     ''PRIMARY_GROSS_REVENUE_MEASURE'',
     ''QUESTIONS_ANSWERED_MEASURE'',
     ''QUESTIONS_IMPRESSED_MEASURE'',
     ''QUESTIONS_IMPRESSED_FOR_POSITION_RATE_MEASURE'',
     ''ZAN_SECONDARY_END_OF_PLACEMENT_VISITS_MEASURE'',
     ''QUESTIONS_ANSWERED_FOR_POSITION_RATE_MEASURE'',
     ''ZAN_SECONDARY_PLACEMENT_VISITS_MEASURE'',
     ''SECONDARY_NET_REVENUE_MEASURE'']"

subsection \<open>Feature definitions of \<^verbatim>\<open>sagemaker/training_script.py\<close>\<close>

definition TARGET_training_script :: string where
  "TARGET_training_script = ''IPQS_DEVICE_FP_FRAUD_SCORE''"

definition BOOLEAN_FEATURES_training_script :: "string list" where
  "BOOLEAN_FEATURES_training_script =
    [''IP_API_HOSTING'',
     ''IP_API_MOBILE'',
     ''IP_API_PROXY'']"

definition CATEGORICAL_FEATURES_training_script :: "string list" where
  "CATEGORICAL_FEATURES_training_script =
    [''IP_API_CITY'',
     ''IP_API_COUNTRY'',
     ''IP_API_COUNTRY_CODE'',
     ''IP_API_ORG'',
     ''IP_API_REGION'',
     ''IP_API_STATUS'',
     ''IP_API_TIMEZONE'',
     ''BROWSERNAME'',
     ''BROWSERVERSION'',
     ''DEVICECATEGORY'',
     ''DEVICETYPE'',
     ''OPERATINGSYSTEM'',
     ''OPERATINGSYSTEMVERSION'',
     ''PROPERTY_NAME'',
     ''PUBLISHER_NAME'',
     ''UTM_CONTENT'',
     ''UTM_TERM'',
     ''UTM_MEDIUM'',
     ''UTM_SOURCE'',
     ''VISITOR_TYPE'',
     ''DOMAIN'',
     ''STATE'',
     ''EMAIL_VERIFICATION_RESPONSE'']"

definition NUMERIC_FEATURES_training_script :: "string list" where
  "NUMERIC_FEATURES_training_script =
    [''IP_API_LATITUDE'',
     ''IP_API_LONGITUDE'',
     ''VISIT_COUNT_FORM_COMPLETED_MEASURE'',
     ''VISIT_COUNT_FORM_STARTED_MEASURE'',
     ''VISIT_COUNT_VISIT_TO_PAGE_1_MEASURE'',
     ''VISIT_COUNT_PAGE_1_TO_PAGE_2_MEASURE'',
     ''VISIT_COUNT_PAGE_2_TO_PAGE_3_MEASURE'',
     ''SECONDS_SPENT_FORM_MEASURE'',
     ''SECONDS_SPENT_FORM_COMPLETE_MEASURE'',
     ''SECONDS_SPENT_PAGE_1_TO_2_MEASURE'',
     ''SECONDS_SPENT_PAGE_2_TO_3_MEASURE'',
     ''SECONDS_SPENT_VISIT_TO_PAGE_1_MEASURE'',
     ''SECONDS_SPENT_ZAN_PRIMARY_MEASURE'',
     ''SECONDS_SPENT_ZAN_PRIMARY_COMPLETE_MEASURE'',
     ''SECONDS_SPENT_ZAN_PRIMARY_INCOMPLETE_MEASURE'',
     ''VISIT_COUNT_ZAN_COMPLETED_LESS_THAN_7_SECONDS_MEASURE'',
     ''VISIT_COUNT_ZAN_PRIMARY_COMPLETE_MEASURE'',
     ''VISIT_COUNT_ZAN_PRIMARY_LOAD_MEASURE'',
     ''VISIT_COUNT_ZAN_SPENT_MORE_THAN_5_MINS_MEASURE'',
     ''LTV_PIXEL_CAMPAIGN_CLICKS_MEASURE'',
     ''LTV_PIXEL_CAMPAIGN_IMPRESSIONS_MEASURE'',
     ''LTV_PIXEL_PURCHASE_COUNT_MEASURE'',
     ''LTV_PIXEL_REVENUE_MEASURE'',
     ''LTV_PIXEL_ADVERTISER_COST_MEASURE'',
     ''FICTITIOUS_CHARACTERS_NAME_MEASURE'',
     ''FLAGGED_ADDRESS_MEASURE'',
     ''FLAGGED_NAME_MEASURE'',
     ''FNLN_EMAIL_STRING_MEASURE'',
     ''IPQS_FLAGGED_LOCATION_MEASURE'',
     ''MISSING_ADDRESS_NUMBER_MEASURE'',
     ''MISSING_STREET_TYPE_MEASURE'',
     ''VISITS_WITH_PII_COMPLETE_VISITS'',
     ''RECYCLED_IP_ADDRESS_MEASURE'',
     ''SINGLE_LETTER_STRING_NAME_MEASURE'',
     ''THREE_LETTER_STRING_NAME_MEASURE'',
     ''TWO_LETTER_STRING_NAME_MEASURE'',
     ''THREE_LETTER_STRING_LEFT_RIGHT_NAME_MEASURE'',
     ''VULGAR_WORDS_NAME_MEASURE'',
     ''VISIT_COUNT_ZAN_PRIMARY_INCOMPLETE_MEASURE'',
     ''POSITION_1_ANSWERS_MEASURE'',
     ''CAMPAIGN_CLICKS_MEASURE'',
     ''CAMPAIGN_CONVERSIONS_MEASURE'',
     ''CAMPAIGN_IMPRESSIONS_MEASURE'',
     ''CPA_CLICKS_MEASURE'',
     ''CPA_CONVERSIONS_MEASURE'',
     ''CPA_IMPRESSIONS_MEASURE'',
     ''CPA_REVENUE_MEASURE'',
     ''CPC_CONVERSIONS_MEASURE'',
     ''CPC_IMPRESSIONS_MEASURE'',
     ''CPC_REVENUE_MEASURE'',
     ''CPL_CONVERSIONS_MEASURE'',
     ''CPL_IMPRESSIONS_MEASURE'',
     ''CPL_REVENUE_MEASURE'',
     ''TOTAL_GROSS_REVENUE_MEASURE'',
     ''LAST_POSITION_ANSWERS_MEASURE'',
     ''TOTAL_NET_REVENUE_MEASURE'',
     ''PREPING_SCORE_1_PRIMARY_VISITS'',
     ''PREPING_SCORE_2_PRIMARY_VISITS'',
     ''PREPING_SCORE_3_PRIMARY_VISITS'',
     ''PREPING_SCORE_4_PRIMARY_VISITS'',
     ''PREPING_SCORE_5_PRIMARY_VISITS'',
     ''PRIMARY_GROSS_REVENUE_MEASURE'',
     ''QUESTIONS_ANSWERED_MEASURE'',
     ''QUESTIONS_IMPRESSED_MEASURE'',
     ''QUESTIONS_IMPRESSED_FOR_POSITION_RATE_MEASURE'',
     ''ZAN_SECONDARY_END_OF_PLACEMENT_VISITS_MEASURE'',
     ''QUESTIONS_ANSWERED_FOR_POSITION_RATE_MEASURE'',
     ''ZAN_SECONDARY_PLACEMENT_VISITS_MEASURE'',
     ''SECONDARY_NET_REVENUE_MEASURE'']"

subsection \<open>Feature definitions of \<^verbatim>\<open>sagemaker/inference.py\<close>\<close>

definition BOOLEAN_FEATURES_inference :: "string list" where
  "BOOLEAN_FEATURES_inference =
    [''IP_API_HOSTING'',
     ''IP_API_MOBILE'',
     ''IP_API_PROXY'']"

definition CATEGORICAL_FEATURES_inference :: "string list" where
  "CATEGORICAL_FEATURES_inference =
    [''IP_API_CITY'',
     ''IP_API_COUNTRY'',
     ''IP_API_COUNTRY_CODE'',
     ''IP_API_ORG'',
     ''IP_API_REGION'',
     ''IP_API_STATUS'',
     ''IP_API_TIMEZONE'',
     ''BROWSERNAME'',
     ''BROWSERVERSION'',
     ''DEVICECATEGORY'',
     ''DEVICETYPE'',
     ''OPERATINGSYSTEM'',
     ''OPERATINGSYSTEMVERSION'',
     ''PROPERTY_NAME'',
     ''PUBLISHER_NAME'',
     ''UTM_CONTENT'',
     ''UTM_TERM'',
     ''UTM_MEDIUM'',
     ''UTM_SOURCE'',
     ''VISITOR_TYPE'',
     ''DOMAIN'',
     ''STATE'',
     ''EMAIL_VERIFICATION_RESPONSE'']"

definition NUMERIC_FEATURES_inference :: "string list" where
  "NUMERIC_FEATURES_inference =
    [''IP_API_LATITUDE'',
     ''IP_API_LONGITUDE'',
     ''VISIT_COUNT_FORM_COMPLETED_MEASURE'',
     ''VISIT_COUNT_FORM_STARTED_MEASURE'',
     ''VISIT_COUNT_VISIT_TO_PAGE_1_MEASURE'',
     ''VISIT_COUNT_PAGE_1_TO_PAGE_2_MEASURE'',
     ''VISIT_COUNT_PAGE_2_TO_PAGE_3_MEASURE'',
     ''SECONDS_SPENT_FORM_MEASURE'',
     ''SECONDS_SPENT_FORM_COMPLETE_MEASURE'',
     ''SECONDS_SPENT_PAGE_1_TO_2_MEASURE'',
     ''SECONDS_SPENT_PAGE_2_TO_3_MEASURE'',
     ''SECONDS_SPENT_VISIT_TO_PAGE_1_MEASURE'',
     ''SECONDS_SPENT_ZAN_PRIMARY_MEASURE'',
     ''SECONDS_SPENT_ZAN_PRIMARY_COMPLETE_MEASURE'',
     ''SECONDS_SPENT_ZAN_PRIMARY_INCOMPLETE_MEASURE'',
     ''VISIT_COUNT_ZAN_COMPLETED_LESS_THAN_7_SECONDS_MEASURE'',
     ''VISIT_COUNT_ZAN_PRIMARY_COMPLETE_MEASURE'',
     ''VISIT_COUNT_ZAN_PRIMARY_LOAD_MEASURE'',
     ''VISIT_COUNT_ZAN_SPENT_MORE_THAN_5_MINS_MEASURE'',
     ''LTV_PIXEL_CAMPAIGN_CLICKS_MEASURE'',
     ''LTV_PIXEL_CAMPAIGN_IMPRESSIONS_MEASURE'',
     ''LTV_PIXEL_PURCHASE_COUNT_MEASURE'',
     ''LTV_PIXEL_REVENUE_MEASURE'',
     ''LTV_PIXEL_ADVERTISER_COST_MEASURE'',
     ''FICTITIOUS_CHARACTERS_NAME_MEASURE'',
     ''FLAGGED_ADDRESS_MEASURE'',
     ''FLAGGED_NAME_MEASURE'',
     ''FNLN_EMAIL_STRING_MEASURE'',
     ''IPQS_FLAGGED_LOCATION_MEASURE'',
     ''MISSING_ADDRESS_NUMBER_MEASURE'',
     ''MISSING_STREET_TYPE_MEASURE'',
     ''VISITS_WITH_PII_COMPLETE_VISITS'',
     ''RECYCLED_IP_ADDRESS_MEASURE'',
     ''SINGLE_LETTER_STRING_NAME_MEASURE'',
     ''THREE_LETTER_STRING_NAME_MEASURE'',
     ''TWO_LETTER_STRING_NAME_MEASURE'',
     ''THREE_LETTER_STRING_LEFT_RIGHT_NAME_MEASURE'',
     ''VULGAR_WORDS_NAME_MEASURE'',
     ''VISIT_COUNT_ZAN_PRIMARY_INCOMPLETE_MEASURE'',
     ''POSITION_1_ANSWERS_MEASURE'',
     ''CAMPAIGN_CLICKS_MEASURE'',
     ''CAMPAIGN_CONVERSIONS_MEASURE'',
     ''CAMPAIGN_IMPRESSIONS_MEASURE'',
     ''CPA_CLICKS_MEASURE'',
     ''CPA_CONVERSIONS_MEASURE'',
     ''CPA_IMPRESSIONS_MEASURE'',
     ''CPA_REVENUE_MEASURE'',
     ''CPC_CONVERSIONS_MEASURE'',
     ''CPC_IMPRESSIONS_MEASURE'',
     ''CPC_REVENUE_MEASURE'',
     ''CPL_CONVERSIONS_MEASURE'',
     ''CPL_IMPRESSIONS_MEASURE'',
     ''CPL_REVENUE_MEASURE'',
     ''TOTAL_GROSS_REVENUE_MEASURE'',
     ''LAST_POSITION_ANSWERS_MEASURE'',
     ''TOTAL_NET_REVENUE_MEASURE'',
     ''PREPING_SCORE_1_PRIMARY_VISITS'',
     ''PREPING_SCORE_2_PRIMARY_VISITS'',
     ''PREPING_SCORE_3_PRIMARY_VISITS'',
     ''PREPING_SCORE_4_PRIMARY_VISITS'',
     ''PREPING_SCORE_5_PRIMARY_VISITS'',
     ''PRIMARY_GROSS_REVENUE_MEASURE'',
     ''QUESTIONS_ANSWERED_MEASURE'',
     ''QUESTIONS_IMPRESSED_MEASURE'',
     ''QUESTIONS_IMPRESSED_FOR_POSITION_RATE_MEASURE'',
     ''ZAN_SECONDARY_END_OF_PLACEMENT_VISITS_MEASURE'',
     ''QUESTIONS_ANSWERED_FOR_POSITION_RATE_MEASURE'',
     ''ZAN_SECONDARY_PLACEMENT_VISITS_MEASURE'',
     ''SECONDARY_NET_REVENUE_MEASURE'']"

subsection \<open>The contract of a script\<close>

text \<open>
  A script's contract is what it declares: the three ordered lists, and the target column
  name when the script declares one (\<^verbatim>\<open>sagemaker/inference.py\<close> has no \<^verbatim>\<open>TARGET\<close>).
\<close>

record feature_contract =
  target :: "string option"
  boolean_features :: "string list"
  categorical_features :: "string list"
  numeric_features :: "string list"

definition contract_extract_training :: feature_contract where
  "contract_extract_training =
     \<lparr>target = Some TARGET_extract_training,
      boolean_features = BOOLEAN_FEATURES_extract_training,
      categorical_features = CATEGORICAL_FEATURES_extract_training,
      numeric_features = NUMERIC_FEATURES_extract_training\<rparr>"

definition contract_extract_inference :: feature_contract where
  "contract_extract_inference =
     \<lparr>target = Some TARGET_extract_inference,
      boolean_features = BOOLEAN_FEATURES_extract_inference,
      categorical_features = CATEGORICAL_FEATURES_extract_inference,
      numeric_features = NUMERIC_FEATURES_extract_inference\<rparr>"

definition contract_training_script :: feature_contract where
  "contract_training_script =
     \<lparr>target = Some TARGET_training_script,
      boolean_features = BOOLEAN_FEATURES_training_script,
      categorical_features = CATEGORICAL_FEATURES_training_script,
      numeric_features = NUMERIC_FEATURES_training_script\<rparr>"

definition contract_inference :: feature_contract where
  "contract_inference =
     \<lparr>target = None,
      boolean_features = BOOLEAN_FEATURES_inference,
      categorical_features = CATEGORICAL_FEATURES_inference,
      numeric_features = NUMERIC_FEATURES_inference\<rparr>"

text \<open>\<^verbatim>\<open>ALL_RAW_FEATURES = BOOLEAN_FEATURES + CATEGORICAL_FEATURES + NUMERIC_FEATURES\<close>
  (inference.py, the column names given to the CSV parser).\<close>

definition ALL_RAW_FEATURES :: "string list" where
  "ALL_RAW_FEATURES =
     BOOLEAN_FEATURES_inference @ CATEGORICAL_FEATURES_inference @ NUMERIC_FEATURES_inference"


section \<open>Warehouse side: the preprocessing SQL\<close>

text \<open>
  The extractors build one SQL \<^verbatim>\<open>SELECT\<close> by string interpolation and leave its evaluation
  to the warehouse. The embedding keeps the select list as syntax trees, one per
  interpolated fragment, and gives the fragments the warehouse's semantics: SQL
  three-valued comparison, \<^verbatim>\<open>CASE WHEN\<close> taking its \<^verbatim>\<open>ELSE\<close> branch unless the condition is
  true, \<^verbatim>\<open>COALESCE\<close> returning its first non-null argument, \<^verbatim>\<open>TO_VARCHAR\<close> mapping null
  to null and a string to itself.
\<close>

datatype sql_value = SNull | SBool bool | SNum rat | SStr string

datatype sql_type = BOOLEAN | VARCHAR | NUMBER

datatype sql_error = InvalidIdentifier string | TypeMismatch

datatype sql_expr =
    Column string
  | BoolLit bool
  | NumLit rat
  | StrLit string
  | Equals sql_expr sql_expr
  | CaseWhenElse sql_expr sql_expr sql_expr
  | Coalesce sql_expr sql_expr
  | ToVarchar sql_expr

type_synonym record_row = "string \<rightharpoonup> sql_value"

text \<open>A value belongs to a declared column type when it is null or of that type.\<close>

fun has_type :: "sql_type \<Rightarrow> sql_value \<Rightarrow> bool" where
  "has_type t SNull = True"
| "has_type t (SBool b) = (t = BOOLEAN)"
| "has_type t (SNum n) = (t = NUMBER)"
| "has_type t (SStr s) = (t = VARCHAR)"

fun same_type :: "sql_value \<Rightarrow> sql_value \<Rightarrow> bool" where
  "same_type SNull w = True"
| "same_type v SNull = True"
| "same_type (SBool a) (SBool b) = True"
| "same_type (SNum a) (SNum b) = True"
| "same_type (SStr a) (SStr b) = True"
| "same_type v w = False"

text \<open>
  What the warehouse does beyond the standard semantics is not fixed by the scripts and is
  a parameter of the evaluation: the text of a number under \<^verbatim>\<open>TO_VARCHAR\<close>, and the
  implicit casts it applies when an operator meets two non-null values of different
  types (the truth value of their comparison, the value of their \<^verbatim>\<open>COALESCE\<close>), each of
  which may also fail.
\<close>

record warehouse =
  number_text :: "rat \<Rightarrow> string"
  compare_cast :: "sql_value \<Rightarrow> sql_value \<Rightarrow> sql_error + bool option"
  coalesce_cast :: "sql_value \<Rightarrow> sql_value \<Rightarrow> sql_error + sql_value"

text \<open>
  \<^verbatim>\<open>a = b\<close>: null when either side is null, a boolean for two values of one type, the
  warehouse's cast comparison for two values of different types.
\<close>

fun sql_equals :: "warehouse \<Rightarrow> sql_value \<Rightarrow> sql_value \<Rightarrow> sql_error + sql_value" where
  "sql_equals wh SNull v = Inr SNull"
| "sql_equals wh v SNull = Inr SNull"
| "sql_equals wh (SBool a) (SBool b) = Inr (SBool (a = b))"
| "sql_equals wh (SNum a) (SNum b) = Inr (SBool (a = b))"
| "sql_equals wh (SStr a) (SStr b) = Inr (SBool (a = b))"
| "sql_equals wh v w =
     (case compare_cast wh v w of
        Inl e \<Rightarrow> Inl e
      | Inr None \<Rightarrow> Inr SNull
      | Inr (Some b) \<Rightarrow> Inr (SBool b))"

text \<open>\<^verbatim>\<open>TO_VARCHAR\<close>: the textual representation of a value.\<close>

fun to_varchar :: "warehouse \<Rightarrow> sql_value \<Rightarrow> sql_value" where
  "to_varchar wh SNull = SNull"
| "to_varchar wh (SStr s) = SStr s"
| "to_varchar wh (SBool b) = SStr (if b then ''true'' else ''false'')"
| "to_varchar wh (SNum n) = SStr (number_text wh n)"

text \<open>
  \<^verbatim>\<open>COALESCE(a, b)\<close> of two values: the first if it is not null, else the second; the
  warehouse's cast when both are non-null and of different types.
\<close>

definition sql_coalesce :: "warehouse \<Rightarrow> sql_value \<Rightarrow> sql_value \<Rightarrow> sql_error + sql_value" where
  "sql_coalesce wh v w =
     (if same_type v w then Inr (if v = SNull then w else v) else coalesce_cast wh v w)"

text \<open>
  Evaluation of an expression on one row. Both arguments of \<^verbatim>\<open>COALESCE\<close> are evaluated
  (the second is a literal in every select item of the scripts).
\<close>

fun eval :: "warehouse \<Rightarrow> record_row \<Rightarrow> sql_expr \<Rightarrow> sql_error + sql_value" where
  "eval wh row (Column c) =
     (case row c of None \<Rightarrow> Inl (InvalidIdentifier c) | Some v \<Rightarrow> Inr v)"
| "eval wh row (BoolLit b) = Inr (SBool b)"
| "eval wh row (NumLit n) = Inr (SNum n)"
| "eval wh row (StrLit s) = Inr (SStr s)"
| "eval wh row (Equals a b) =
     (case eval wh row a of
        Inl e \<Rightarrow> Inl e
      | Inr v \<Rightarrow> (case eval wh row b of Inl e \<Rightarrow> Inl e | Inr w \<Rightarrow> sql_equals wh v w))"
| "eval wh row (CaseWhenElse c a b) =
     (case eval wh row c of
        Inl e \<Rightarrow> Inl e
      | Inr (SBool True) \<Rightarrow> eval wh row a
      | Inr (SBool False) \<Rightarrow> eval wh row b
      | Inr SNull \<Rightarrow> eval wh row b
      | Inr _ \<Rightarrow> Inl TypeMismatch)"
| "eval wh row (Coalesce a b) =
     (case eval wh row a of
        Inl e \<Rightarrow> Inl e
      | Inr v \<Rightarrow> (case eval wh row b of Inl e \<Rightarrow> Inl e | Inr w \<Rightarrow> sql_coalesce wh v w))"
| "eval wh row (ToVarchar a) =
     (case eval wh row a of Inl e \<Rightarrow> Inl e | Inr v \<Rightarrow> Inr (to_varchar wh v))"

subsection \<open>The select list of \<^verbatim>\<open>build_preprocessing_sql\<close> and \<^verbatim>\<open>build_inference_sql\<close>\<close>

text \<open>A select item is an expression with its \<^verbatim>\<open>AS\<close> alias.\<close>

type_synonym select_item = "sql_expr \<times> string"

text \<open>\<^verbatim>\<open>COALESCE(CASE WHEN {col_name} = TRUE THEN 1 ELSE 0 END, 0) AS {col_name}\<close>\<close>

definition boolean_part :: "string \<Rightarrow> select_item" where
  "boolean_part col_name =
     (Coalesce (CaseWhenElse (Equals (Column col_name) (BoolLit True)) (NumLit 1) (NumLit 0))
        (NumLit 0),
      col_name)"

text \<open>\<^verbatim>\<open>COALESCE(TO_VARCHAR({col_name}), 'MISSING') AS {col_name}\<close>\<close>

definition categorical_part :: "string \<Rightarrow> select_item" where
  "categorical_part col_name =
     (Coalesce (ToVarchar (Column col_name)) (StrLit ''MISSING''), col_name)"

text \<open>\<^verbatim>\<open>COALESCE({col_name}, 0) AS {col_name}\<close>\<close>

definition numeric_part :: "string \<Rightarrow> select_item" where
  "numeric_part col_name = (Coalesce (Column col_name) (NumLit 0), col_name)"

text \<open>The three loops of \<^verbatim>\<open>build_preprocessing_sql\<close>, then the bare target column.\<close>

definition select_parts_training :: "select_item list" where
  "select_parts_training =
     map boolean_part BOOLEAN_FEATURES_extract_training
     @ map categorical_part CATEGORICAL_FEATURES_extract_training
     @ map numeric_part NUMERIC_FEATURES_extract_training
     @ [(Column TARGET_extract_training, TARGET_extract_training)]"

text \<open>\<^verbatim>\<open>build_inference_sql\<close>: the ID column first, then the same three loops, no target.\<close>

definition select_parts_inference :: "string \<Rightarrow> select_item list" where
  "select_parts_inference id_column =
     [(Column id_column, id_column)]
     @ map boolean_part BOOLEAN_FEATURES_extract_inference
     @ map categorical_part CATEGORICAL_FEATURES_extract_inference
     @ map numeric_part NUMERIC_FEATURES_extract_inference"

text \<open>
  Projecting one row through a select list: every item is evaluated on that row alone;
  the first failing item fails the row.
\<close>

fun project :: "warehouse \<Rightarrow> select_item list \<Rightarrow> record_row
    \<Rightarrow> sql_error + (string \<times> sql_value) list" where
  "project wh [] row = Inr []"
| "project wh ((e, alias) # items) row =
     (case eval wh row e of
        Inl err \<Rightarrow> Inl err
      | Inr v \<Rightarrow>
          (case project wh items row of
             Inl err \<Rightarrow> Inl err
           | Inr cleaned \<Rightarrow> Inr ((alias, v) # cleaned)))"

subsection \<open>The rule table of the specification\<close>

text \<open>
  The specification's null-filling rules (its section 4.1), written from its words, to
  compare the select lists with: a boolean column becomes 1 when the value is true and 0
  otherwise; a categorical column becomes its textual representation, or the literal
  MISSING when the value is null; a numeric column becomes its value, or 0 when null.
\<close>

fun rule_table :: "warehouse \<Rightarrow> sql_type \<Rightarrow> sql_value \<Rightarrow> sql_value" where
  "rule_table wh BOOLEAN v = SNum (if v = SBool True then 1 else 0)"
| "rule_table wh VARCHAR v = (if v = SNull then SStr ''MISSING'' else to_varchar wh v)"
| "rule_table wh NUMBER v = (if v = SNull then SNum 0 else v)"

text \<open>
  The Cleaned Record of the specification for a row: every boolean, categorical and
  numeric column of the contract under its rule, in the contract's order.
\<close>

definition cleaned_record :: "warehouse \<Rightarrow> string list \<Rightarrow> string list \<Rightarrow> string list
    \<Rightarrow> record_row \<Rightarrow> (string \<times> sql_value) list" where
  "cleaned_record wh booleans categoricals numerics row =
     map (\<lambda>c. (c, rule_table wh BOOLEAN (the (row c)))) booleans
     @ map (\<lambda>c. (c, rule_table wh VARCHAR (the (row c)))) categoricals
     @ map (\<lambda>c. (c, rule_table wh NUMBER (the (row c)))) numerics"


subsection \<open>The training query: eligibility filter and split label\<close>

text \<open>
  A row of the source table: its columns, and the day number of its \<^verbatim>\<open>CREATED_AT\<close>
  timestamp (\<open>None\<close> for a null timestamp). A timestamp is at or after midnight of a date
  exactly when its day number is at least the date's.
\<close>

record warehouse_row =
  cells :: record_row
  CREATED_AT :: "int option"

text \<open>
  \<^verbatim>\<open>WHERE {TARGET} IS NOT NULL AND CREATED_AT >= DATEADD(day, -{days_limit}, CURRENT_DATE())\<close>
\<close>

definition training_eligible :: "int \<Rightarrow> int \<Rightarrow> warehouse_row \<Rightarrow> bool" where
  "training_eligible current_date days_limit r =
     ((case cells r TARGET_extract_training of
         None \<Rightarrow> False
       | Some v \<Rightarrow> v \<noteq> SNull)
      \<and> (case CREATED_AT r of
           None \<Rightarrow> False
         | Some d \<Rightarrow> d \<ge> current_date - days_limit))"

datatype data_split = TEST | TRAIN

text \<open>
  \<^verbatim>\<open>RANDOM({random_seed}) AS split_key\<close>: the warehouse's \<^verbatim>\<open>RANDOM\<close> returns a pseudo-random
  64-bit signed integer per row. The generator itself is the warehouse's; it is the
  parameter \<open>RANDOM\<close>, from the seed and the row's position to the row's value.

  \<^verbatim>\<open>CASE WHEN split_key < {test_size} THEN 'TEST' ELSE 'TRAIN' END AS DATA_SPLIT\<close>:
  the integer key is compared, as a number, with the test fraction.
\<close>

definition DATA_SPLIT :: "64 word \<Rightarrow> rat \<Rightarrow> data_split" where
  "DATA_SPLIT split_key test_size =
     (if of_int (sint split_key) < test_size then TEST else TRAIN)"

record split_row =
  cleaned :: "(string \<times> sql_value) list"
  split_key :: "64 word"
  data_split :: data_split

text \<open>
  The rows of the query's result: the eligible rows in table order, each projected
  through the select list, with its key and its label.
\<close>

fun label_rows :: "warehouse \<Rightarrow> (nat \<Rightarrow> 64 word) \<Rightarrow> rat \<Rightarrow> nat \<Rightarrow> warehouse_row list
    \<Rightarrow> sql_error + split_row list" where
  "label_rows wh draw test_size i [] = Inr []"
| "label_rows wh draw test_size i (r # rs) =
     (case project wh select_parts_training (cells r) of
        Inl err \<Rightarrow> Inl err
      | Inr c \<Rightarrow>
          (case label_rows wh draw test_size (Suc i) rs of
             Inl err \<Rightarrow> Inl err
           | Inr rows \<Rightarrow>
               Inr (\<lparr>cleaned = c, split_key = draw i,
                     data_split = DATA_SPLIT (draw i) test_size\<rparr> # rows)))"

definition preprocessing_query :: "warehouse \<Rightarrow> (int \<Rightarrow> nat \<Rightarrow> 64 word) \<Rightarrow> int
    \<Rightarrow> warehouse_row list \<Rightarrow> int \<Rightarrow> rat \<Rightarrow> int \<Rightarrow> sql_error + split_row list" where
  "preprocessing_query wh RANDOM current_date source_table days_limit test_size random_seed =
     label_rows wh (RANDOM random_seed) test_size 0
       (filter (training_eligible current_date days_limit) source_table)"

text \<open>
  \<^verbatim>\<open>main\<close> of the training extractor writes the rows labelled \<^verbatim>\<open>TRAIN\<close> and the rows
  labelled \<^verbatim>\<open>TEST\<close> to two places, without the key and the label.
\<close>

definition train_rows :: "split_row list \<Rightarrow> (string \<times> sql_value) list list" where
  "train_rows df = map cleaned (filter (\<lambda>r. data_split r = TRAIN) df)"

definition test_rows :: "split_row list \<Rightarrow> (string \<times> sql_value) list list" where
  "test_rows df = map cleaned (filter (\<lambda>r. data_split r = TEST) df)"


section \<open>Data frames and the ordinal encoder\<close>

text \<open>
  The trainer and the predictor work on pandas data frames and a scikit-learn
  \<^verbatim>\<open>OrdinalEncoder\<close>. A frame is its number of rows and its columns in order, every
  column a name with one cell per row. Cells are missing, booleans, numbers or strings;
  numbers are rationals (floating-point rounding is outside the model).
\<close>

datatype cell = NaN | BoolV bool | NumV rat | StrV string

record 'a frame =
  n_rows :: nat
  columns :: "(string \<times> 'a list) list"

datatype py_error =
    ValueError string
  | KeyError "string list"
  | IndexError string
  | AttributeError string
  | FileNotFoundError string
  | UnpicklingError string
  | JSONDecodeError string
  | ParserError string

text \<open>\<^verbatim>\<open>df.columns.tolist()\<close>\<close>

definition column_names :: "'a frame \<Rightarrow> string list" where
  "column_names df = map fst (columns df)"

text \<open>The frames the pipeline handles have distinct column names and full columns.\<close>

definition wf_frame :: "'a frame \<Rightarrow> bool" where
  "wf_frame df =
     (distinct (column_names df) \<and> list_all (\<lambda>cv. length (snd cv) = n_rows df) (columns df))"

text \<open>
  \<^verbatim>\<open>df[names]\<close> with a list of names: a \<^verbatim>\<open>KeyError\<close> naming the absent labels when any
  is absent; otherwise, for each name in turn, the columns carrying it.
\<close>

definition getitem :: "'a frame \<Rightarrow> string list \<Rightarrow> py_error + 'a frame" where
  "getitem df names =
     (case filter (\<lambda>n. n \<notin> set (column_names df)) names of
        [] \<Rightarrow>
          Inr \<lparr>n_rows = n_rows df,
               columns = concat (map (\<lambda>n. filter (\<lambda>cv. fst cv = n) (columns df)) names)\<rparr>
      | missing \<Rightarrow> Inl (KeyError missing))"

text \<open>
  \<^verbatim>\<open>.astype(str)\<close>: Python's \<^verbatim>\<open>str\<close> of every cell. The text of a number is the
  parameter \<open>num_str\<close>.
\<close>

fun str_cell :: "(rat \<Rightarrow> string) \<Rightarrow> cell \<Rightarrow> string" where
  "str_cell num_str NaN = ''nan''"
| "str_cell num_str (BoolV b) = (if b then ''True'' else ''False'')"
| "str_cell num_str (NumV n) = num_str n"
| "str_cell num_str (StrV s) = s"

definition astype_str :: "(rat \<Rightarrow> string) \<Rightarrow> cell frame \<Rightarrow> string frame" where
  "astype_str num_str df =
     \<lparr>n_rows = n_rows df,
      columns = map (\<lambda>cv. (fst cv, map (str_cell num_str) (snd cv))) (columns df)\<rparr>"

text \<open>
  \<^verbatim>\<open>pd.concat(frames, axis=1)\<close> of frames whose index was reset: the columns side by
  side over the union of the row ranges, shorter columns filled with \<^verbatim>\<open>NaN\<close>.
\<close>

definition concat_axis1 :: "cell frame list \<Rightarrow> cell frame" where
  "concat_axis1 dfs =
     (let n = foldr max (map n_rows dfs) 0
      in \<lparr>n_rows = n,
          columns =
            concat (map (\<lambda>d. map (\<lambda>cv. (fst cv, snd cv @ replicate (n - length (snd cv)) NaN))
                                (columns d)) dfs)\<rparr>)"

text \<open>
  \<^verbatim>\<open>pd.DataFrame(array, columns=names, index=df.index)\<close> from the encoder's output, a
  two-dimensional array given here by its columns: a \<^verbatim>\<open>ValueError\<close> when the number of
  names is not the number of columns of the array.
\<close>

definition DataFrame :: "nat \<Rightarrow> int list list \<Rightarrow> string list \<Rightarrow> py_error + cell frame" where
  "DataFrame n array names =
     (if length array \<noteq> length names
      then Inl (ValueError ''Shape of passed values does not match the indices'')
      else Inr \<lparr>n_rows = n, columns = zip names (map (map (\<lambda>code. NumV (of_int code))) array)\<rparr>)"

text \<open>The rows of a frame, each the cells of the columns in order.\<close>

definition rows_of :: "'a frame \<Rightarrow> 'a list list" where
  "rows_of df = map (\<lambda>i. map (\<lambda>cv. snd cv ! i) (columns df)) [0..<n_rows df]"

subsection \<open>\<^verbatim>\<open>sklearn.preprocessing.OrdinalEncoder\<close>\<close>

text \<open>
  The fitted state of an encoder constructed with \<^verbatim>\<open>handle_unknown='use_encoded_value'\<close>:
  the code for unknown values, the column names seen at fit, and per column the learned
  categories. With the default \<^verbatim>\<open>categories='auto'\<close> the categories of a column are its
  distinct values in sorted order (for strings: by code point), and the code of a value
  is its position in that list.
\<close>

record ordinal_encoder =
  unknown_value :: int
  feature_names_in :: "string list"
  categories :: "string list list"

fun index_of :: "'a list \<Rightarrow> 'a \<Rightarrow> nat option" where
  "index_of [] x = None"
| "index_of (y # ys) x = (if x = y then Some 0 else map_option Suc (index_of ys x))"

definition encode_value :: "int \<Rightarrow> string list \<Rightarrow> string \<Rightarrow> int" where
  "encode_value unknown cats s = (case index_of cats s of None \<Rightarrow> unknown | Some i \<Rightarrow> int i)"

text \<open>
  \<^verbatim>\<open>inverse_transform\<close> is the encoder's decoding. No script calls it; it is here for the
  specification's round-trip property. On one value: the unknown code decodes to
  \<^verbatim>\<open>None\<close>; any other code indexes the column's categories as an array index does, a
  negative code counting from the end and a code out of range raising \<^verbatim>\<open>IndexError\<close>.
\<close>

definition inverse_transform_value :: "int \<Rightarrow> string list \<Rightarrow> int \<Rightarrow> py_error + string option" where
  "inverse_transform_value unknown cats code =
     (if code = unknown then Inr None
      else if 0 \<le> code \<and> code < int (length cats) then Inr (Some (cats ! nat code))
      else if code < 0 \<and> - int (length cats) \<le> code
      then Inr (Some (cats ! nat (int (length cats) + code)))
      else Inl (IndexError ''index out of bounds''))"

text \<open>The results of a list of steps, or the first error among them.\<close>

fun collect :: "('e + 'a) list \<Rightarrow> 'e + 'a list" where
  "collect [] = Inr []"
| "collect (Inl e # rs) = Inl e"
| "collect (Inr x # rs) = (case collect rs of Inl e \<Rightarrow> Inl e | Inr xs \<Rightarrow> Inr (x # xs))"

text \<open>
  \<^verbatim>\<open>fit\<close>: a frame with columns but no rows is rejected (an array with 0 samples).
\<close>

definition fit :: "int \<Rightarrow> string frame \<Rightarrow> py_error + ordinal_encoder" where
  "fit unknown X =
     (if columns X \<noteq> [] \<and> n_rows X = 0
      then Inl (ValueError ''Found array with 0 sample(s)'')
      else Inr \<lparr>unknown_value = unknown,
                feature_names_in = column_names X,
                categories = map (\<lambda>cv. sort (remdups (snd cv))) (columns X)\<rparr>)"

text \<open>
  \<^verbatim>\<open>transform\<close>: the frame must carry the columns seen at fit (same names, same
  number); every value becomes its code, an unseen value the unknown code. The result is
  the array of codes, column by column.
\<close>

definition transform :: "ordinal_encoder \<Rightarrow> string frame \<Rightarrow> py_error + int list list" where
  "transform enc X =
     (if column_names X \<noteq> feature_names_in enc
      then Inl (ValueError ''The feature names should match those that were passed during fit'')
      else if columns X \<noteq> [] \<and> n_rows X = 0
      then Inl (ValueError ''Found array with 0 sample(s)'')
      else Inr (map (\<lambda>(cats, cv). map (encode_value (unknown_value enc) cats) (snd cv))
                  (zip (categories enc) (columns X))))"

definition fit_transform :: "int \<Rightarrow> string frame \<Rightarrow> py_error + (int list list \<times> ordinal_encoder)" where
  "fit_transform unknown X =
     (case fit unknown X of
        Inl e \<Rightarrow> Inl e
      | Inr enc \<Rightarrow> (case transform enc X of Inl e \<Rightarrow> Inl e | Inr codes \<Rightarrow> Inr (codes, enc)))"

text \<open>
  \<^verbatim>\<open>inverse_transform\<close> on an array of codes, column by column: the array must have as
  many columns as the encoder has features.
\<close>

definition inverse_transform :: "ordinal_encoder \<Rightarrow> int list list
    \<Rightarrow> py_error + string option list list" where
  "inverse_transform enc codes =
     (if length codes \<noteq> length (categories enc)
      then Inl (ValueError ''Shape of the passed X data is not correct'')
      else collect (map (\<lambda>(cats, col).
                           collect (map (inverse_transform_value (unknown_value enc) cats) col))
                        (zip (categories enc) codes)))"


section \<open>The trainer: \<^verbatim>\<open>sagemaker/training_script.py\<close>\<close>

text \<open>
  \<^verbatim>\<open>prepare_features(df, encoder, fit)\<close>: the contract's columns that the frame has,
  each list in the contract's order; the categorical ones as strings through the encoder
  (fitted here when \<open>fit\<close> is set, the given one otherwise); the encoded columns renamed
  with the suffix; the three blocks side by side; the target column when the frame has it.
\<close>

definition prepare_features :: "(rat \<Rightarrow> string) \<Rightarrow> cell frame \<Rightarrow> ordinal_encoder option \<Rightarrow> bool
    \<Rightarrow> py_error + (cell frame \<times> cell list option \<times> ordinal_encoder)" where
  "prepare_features num_str df encoder do_fit =
     (let available_cols = column_names df;
          bool_cols = filter (\<lambda>c. c \<in> set available_cols) BOOLEAN_FEATURES_training_script;
          cat_cols = filter (\<lambda>c. c \<in> set available_cols) CATEGORICAL_FEATURES_training_script;
          num_cols = filter (\<lambda>c. c \<in> set available_cols) NUMERIC_FEATURES_training_script
      in case getitem df cat_cols of
           Inl e \<Rightarrow> Inl e
         | Inr df_cat \<Rightarrow>
        (case (if do_fit then fit_transform (- 1) (astype_str num_str df_cat)
               else (case encoder of
                       None \<Rightarrow> Inl (AttributeError ''NoneType object has no attribute transform'')
                     | Some enc \<Rightarrow>
                         (case transform enc (astype_str num_str df_cat) of
                            Inl e \<Rightarrow> Inl e
                          | Inr codes \<Rightarrow> Inr (codes, enc)))) of
           Inl e \<Rightarrow> Inl e
         | Inr (cat_encoded, encoder') \<Rightarrow>
        (case DataFrame (n_rows df) cat_encoded (map (\<lambda>c. c @ ''_ENCODED'') cat_cols) of
           Inl e \<Rightarrow> Inl e
         | Inr cat_encoded_df \<Rightarrow>
        (case getitem df bool_cols of
           Inl e \<Rightarrow> Inl e
         | Inr df_bool \<Rightarrow>
        (case getitem df num_cols of
           Inl e \<Rightarrow> Inl e
         | Inr df_num \<Rightarrow>
            (let X = concat_axis1 [df_bool, cat_encoded_df, df_num];
                 y = (if TARGET_training_script \<in> set (column_names df)
                      then map_option snd
                             (find (\<lambda>cv. fst cv = TARGET_training_script) (columns df))
                      else None)
             in Inr (X, y, encoder')))))))"

subsection \<open>Model artifacts on disk\<close>

text \<open>
  The booster is opaque: a scoring function from a feature row to a prediction. A file of
  the model directory holds a saved booster, a pickled encoder or a JSON list of names;
  \<^verbatim>\<open>pickle.dump\<close> and \<^verbatim>\<open>pickle.load\<close>, \<^verbatim>\<open>json.dump\<close> and \<^verbatim>\<open>json.load\<close>,
  \<^verbatim>\<open>save_model\<close> and \<^verbatim>\<open>load_model\<close> are taken as faithful: a file read back gives the
  object written. The file system is a map from paths to files.
\<close>

type_synonym booster = "cell list \<Rightarrow> rat"

datatype artifact =
    XGBoostModel booster
  | PickledEncoder ordinal_encoder
  | JsonNames "string list"

type_synonym file_system = "string \<rightharpoonup> artifact"

text \<open>\<^verbatim>\<open>os.path.join(a, b)\<close> for two components.\<close>

definition os_path_join :: "string \<Rightarrow> string \<Rightarrow> string" where
  "os_path_join a b =
     (if b \<noteq> [] \<and> hd b = CHR ''/'' then b
      else if a = [] \<or> last a = CHR ''/'' then a @ b
      else a @ ''/'' @ b)"

text \<open>\<^verbatim>\<open>save_model(model, encoder, feature_names, model_dir)\<close>\<close>

definition save_model :: "file_system \<Rightarrow> booster \<Rightarrow> ordinal_encoder \<Rightarrow> string list \<Rightarrow> string
    \<Rightarrow> file_system" where
  "save_model fs model encoder feature_names model_dir =
     (let model_path = os_path_join model_dir ''xgboost-model'';
          fs1 = fs(model_path \<mapsto> XGBoostModel model);
          encoder_path = os_path_join model_dir ''encoder.pkl'';
          fs2 = fs1(encoder_path \<mapsto> PickledEncoder encoder);
          features_path = os_path_join model_dir ''feature_names.json''
      in fs2(features_path \<mapsto> JsonNames feature_names))"


section \<open>The predictor: \<^verbatim>\<open>sagemaker/inference.py\<close>\<close>

text \<open>The module's global variables, \<^verbatim>\<open>None\<close> until \<^verbatim>\<open>model_fn\<close> has run.\<close>

record serving_state =
  model :: "booster option"
  encoder :: "ordinal_encoder option"
  feature_names :: "string list option"

definition initial_state :: serving_state where
  "initial_state = \<lparr>model = None, encoder = None, feature_names = None\<rparr>"

text \<open>\<^verbatim>\<open>model_fn(model_dir)\<close>: loads the three artifacts into the globals, returns the booster.\<close>

definition model_fn :: "file_system \<Rightarrow> string \<Rightarrow> py_error + (serving_state \<times> booster)" where
  "model_fn fs model_dir =
     (let model_path = os_path_join model_dir ''xgboost-model'' in
      case fs model_path of
        None \<Rightarrow> Inl (FileNotFoundError model_path)
      | Some (PickledEncoder _) \<Rightarrow> Inl (ValueError model_path)
      | Some (JsonNames _) \<Rightarrow> Inl (ValueError model_path)
      | Some (XGBoostModel m) \<Rightarrow>
     (let encoder_path = os_path_join model_dir ''encoder.pkl'' in
      case fs encoder_path of
        None \<Rightarrow> Inl (FileNotFoundError encoder_path)
      | Some (XGBoostModel _) \<Rightarrow> Inl (UnpicklingError encoder_path)
      | Some (JsonNames _) \<Rightarrow> Inl (UnpicklingError encoder_path)
      | Some (PickledEncoder enc) \<Rightarrow>
     (let features_path = os_path_join model_dir ''feature_names.json'' in
      case fs features_path of
        None \<Rightarrow> Inl (FileNotFoundError features_path)
      | Some (XGBoostModel _) \<Rightarrow> Inl (JSONDecodeError features_path)
      | Some (PickledEncoder _) \<Rightarrow> Inl (JSONDecodeError features_path)
      | Some (JsonNames names) \<Rightarrow>
          Inr (\<lparr>model = Some m, encoder = Some enc, feature_names = Some names\<rparr>, m))))"

subsection \<open>Requests and responses\<close>

datatype json =
    JNull
  | JBool bool
  | JNumber rat
  | JString string
  | JArray "json list"
  | JObject "(string \<times> json) list"

text \<open>
  \<^verbatim>\<open>input_fn(request_body, request_content_type)\<close>. The parsers are library code and
  parameters here: \<open>read_csv body names\<close> for \<^verbatim>\<open>pd.read_csv(..., header=None, names=names)\<close>,
  \<open>json_loads\<close> for \<^verbatim>\<open>json.loads\<close>, \<open>frame_of_records\<close> for \<^verbatim>\<open>pd.DataFrame\<close> on a list
  of parsed values.
\<close>

definition input_fn :: "(string \<Rightarrow> string list \<Rightarrow> py_error + cell frame)
    \<Rightarrow> (string \<Rightarrow> py_error + json) \<Rightarrow> (json list \<Rightarrow> py_error + cell frame)
    \<Rightarrow> string \<Rightarrow> string \<Rightarrow> py_error + cell frame" where
  "input_fn read_csv json_loads frame_of_records request_body request_content_type =
     (if request_content_type = ''text/csv'' then read_csv request_body ALL_RAW_FEATURES
      else if request_content_type = ''application/json'' then
        (case json_loads request_body of
           Inl e \<Rightarrow> Inl e
         | Inr (JArray data) \<Rightarrow> frame_of_records data
         | Inr data \<Rightarrow> frame_of_records [data])
      else Inl (ValueError (''Unsupported content type: '' @ request_content_type)))"

text \<open>
  \<^verbatim>\<open>predict_fn(input_data, model)\<close>, reading the globals \<^verbatim>\<open>encoder\<close> and
  \<^verbatim>\<open>feature_names\<close>. Its body up to and including \<^verbatim>\<open>X = X[feature_names]\<close> is
  \<open>reordered_features\<close>: assembly as in the trainer, then the reindexing to the
  persisted names.
\<close>

definition reordered_features :: "(rat \<Rightarrow> string) \<Rightarrow> serving_state \<Rightarrow> cell frame
    \<Rightarrow> py_error + cell frame" where
  "reordered_features num_str st input_data =
     (let available_cols = column_names input_data;
          bool_cols = filter (\<lambda>c. c \<in> set available_cols) BOOLEAN_FEATURES_inference;
          cat_cols = filter (\<lambda>c. c \<in> set available_cols) CATEGORICAL_FEATURES_inference;
          num_cols = filter (\<lambda>c. c \<in> set available_cols) NUMERIC_FEATURES_inference
      in case encoder st of
           None \<Rightarrow> Inl (AttributeError ''NoneType object has no attribute transform'')
         | Some enc \<Rightarrow>
        (case getitem input_data cat_cols of
           Inl e \<Rightarrow> Inl e
         | Inr df_cat \<Rightarrow>
        (case transform enc (astype_str num_str df_cat) of
           Inl e \<Rightarrow> Inl e
         | Inr cat_encoded \<Rightarrow>
        (case DataFrame (n_rows input_data) cat_encoded (map (\<lambda>c. c @ ''_ENCODED'') cat_cols) of
           Inl e \<Rightarrow> Inl e
         | Inr cat_encoded_df \<Rightarrow>
        (case getitem input_data bool_cols of
           Inl e \<Rightarrow> Inl e
         | Inr df_bool \<Rightarrow>
        (case getitem input_data num_cols of
           Inl e \<Rightarrow> Inl e
         | Inr df_num \<Rightarrow>
        (case feature_names st of
           None \<Rightarrow> Inl (KeyError [])
         | Some names \<Rightarrow> getitem (concat_axis1 [df_bool, cat_encoded_df, df_num]) names)))))))"

text \<open>
  The rest of the body: the matrix of the reordered frame, and the booster's prediction
  for each of its rows.
\<close>

definition predict_fn :: "(rat \<Rightarrow> string) \<Rightarrow> serving_state \<Rightarrow> cell frame \<Rightarrow> booster
    \<Rightarrow> py_error + rat list" where
  "predict_fn num_str st input_data m =
     (case reordered_features num_str st input_data of
        Inl e \<Rightarrow> Inl e
      | Inr X \<Rightarrow> Inr (map m (rows_of X)))"

text \<open>Python's \<^verbatim>\<open>sep.join(parts)\<close>.\<close>

fun join :: "string \<Rightarrow> string list \<Rightarrow> string" where
  "join sep [] = []"
| "join sep [x] = x"
| "join sep (x # y # ys) = x @ sep @ join sep (y # ys)"

text \<open>
  \<^verbatim>\<open>output_fn(prediction, accept)\<close>. \<open>str_p\<close> is Python's \<^verbatim>\<open>str\<close> on a prediction;
  \<^verbatim>\<open>json.dumps\<close> of the list of predictions is the bracketed list of their JSON texts
  \<open>json_p\<close> separated by a comma and a space.
\<close>

definition output_fn :: "(rat \<Rightarrow> string) \<Rightarrow> (rat \<Rightarrow> string) \<Rightarrow> rat list \<Rightarrow> string
    \<Rightarrow> py_error + string" where
  "output_fn str_p json_p prediction accept =
     (if accept = ''text/csv'' \<or> accept = ''*/*'' then
        Inr (join [CHR 0x0A] (map str_p prediction))
      else if accept = ''application/json'' then
        Inr (''['' @ join '', '' (map json_p prediction) @ '']'')
      else Inl (ValueError (''Unsupported accept type: '' @ accept)))"


section \<open>The loader: \<^verbatim>\<open>glue_scripts/load_scores_to_snowflake.py\<close>\<close>

text \<open>
  A Spark data frame is a list of partitions, each a list of rows.
  \<^verbatim>\<open>monotonically_increasing_id()\<close> gives a row the 64-bit number with the index of its
  partition in the upper 31 bits and the row's position within the partition in the lower
  33 bits.
\<close>

type_synonym 'r spark_frame = "'r list list"

definition monotonically_increasing_id :: "nat \<Rightarrow> nat \<Rightarrow> 64 word" where
  "monotonically_increasing_id partition_index record_number =
     push_bit 33 (of_nat partition_index) + of_nat record_number"

text \<open>\<^verbatim>\<open>df.withColumn("_row_idx", monotonically_increasing_id())\<close>\<close>

definition with_row_idx :: "'r spark_frame \<Rightarrow> ('r \<times> 64 word) spark_frame" where
  "with_row_idx df =
     map (\<lambda>(p, part). map (\<lambda>(j, r). (r, monotonically_increasing_id p j)) (enumerate 0 part))
       (enumerate 0 df)"

text \<open>
  \<^verbatim>\<open>left.join(right, on="_row_idx", how="inner").drop("_row_idx")\<close>: one output row for
  every pair of a left and a right row with equal index. (The order of the output rows
  is the engine's; here it is the left frame's.)
\<close>

definition join_on_row_idx :: "('a \<times> 64 word) spark_frame \<Rightarrow> ('b \<times> 64 word) spark_frame
    \<Rightarrow> ('a \<times> 'b) list" where
  "join_on_row_idx left right =
     concat (map (\<lambda>(a, i). map (\<lambda>(b, j). (a, b)) (filter (\<lambda>(b, j). j = i) (concat right)))
               (concat left))"

text \<open>The join of \<^verbatim>\<open>main\<close>: IDs and predictions, each indexed, joined on the index.\<close>

definition result_df :: "'a spark_frame \<Rightarrow> 'b spark_frame \<Rightarrow> ('a \<times> 'b) list" where
  "result_df ids_df predictions_df =
     join_on_row_idx (with_row_idx ids_df) (with_row_idx predictions_df)"


chapter \<open>Properties\<close>


section \<open>The four copies of the feature lists\<close>

lemma boolean_features_agree:
  "BOOLEAN_FEATURES_extract_inference = BOOLEAN_FEATURES_extract_training"
  "BOOLEAN_FEATURES_training_script = BOOLEAN_FEATURES_extract_training"
  "BOOLEAN_FEATURES_inference = BOOLEAN_FEATURES_extract_training"
  unfolding BOOLEAN_FEATURES_extract_inference_def BOOLEAN_FEATURES_extract_training_def
    BOOLEAN_FEATURES_training_script_def BOOLEAN_FEATURES_inference_def
  by (rule refl)+

lemma categorical_features_agree:
  "CATEGORICAL_FEATURES_extract_inference = CATEGORICAL_FEATURES_extract_training"
  "CATEGORICAL_FEATURES_training_script = CATEGORICAL_FEATURES_extract_training"
  "CATEGORICAL_FEATURES_inference = CATEGORICAL_FEATURES_extract_training"
  unfolding CATEGORICAL_FEATURES_extract_inference_def CATEGORICAL_FEATURES_extract_training_def
    CATEGORICAL_FEATURES_training_script_def CATEGORICAL_FEATURES_inference_def
  by (rule refl)+

lemma numeric_features_agree:
  "NUMERIC_FEATURES_extract_inference = NUMERIC_FEATURES_extract_training"
  "NUMERIC_FEATURES_training_script = NUMERIC_FEATURES_extract_training"
  "NUMERIC_FEATURES_inference = NUMERIC_FEATURES_extract_training"
  unfolding NUMERIC_FEATURES_extract_inference_def NUMERIC_FEATURES_extract_training_def
    NUMERIC_FEATURES_training_script_def NUMERIC_FEATURES_inference_def
  by (rule refl)+

lemma target_agree:
  "TARGET_extract_inference = TARGET_extract_training"
  "TARGET_training_script = TARGET_extract_training"
  unfolding TARGET_extract_inference_def TARGET_extract_training_def TARGET_training_script_def
  by (rule refl)+


section \<open>Cleaning: the null-filling rule table\<close>

lemma eval_boolean_part:
  assumes "row c = Some v" and "has_type BOOLEAN v"
  shows "eval wh row (fst (boolean_part c)) = Inr (rule_table wh BOOLEAN v)"
  using assms by (cases v) (auto simp: boolean_part_def sql_coalesce_def)

lemma eval_categorical_part:
  assumes "row c = Some v"
  shows "eval wh row (fst (categorical_part c)) = Inr (rule_table wh VARCHAR v)"
  using assms by (cases v) (auto simp: categorical_part_def sql_coalesce_def)

lemma eval_numeric_part:
  assumes "row c = Some v" and "has_type NUMBER v"
  shows "eval wh row (fst (numeric_part c)) = Inr (rule_table wh NUMBER v)"
  using assms by (cases v) (auto simp: numeric_part_def sql_coalesce_def)

lemma snd_parts:
  "snd (boolean_part c) = c" "snd (categorical_part c) = c" "snd (numeric_part c) = c"
  by (simp_all add: boolean_part_def categorical_part_def numeric_part_def)

lemma project_append:
  assumes "project wh xs row = Inr a" and "project wh ys row = Inr b"
  shows "project wh (xs @ ys) row = Inr (a @ b)"
  using assms
proof (induction xs arbitrary: a)
  case Nil
  then show ?case by simp
next
  case (Cons x xs)
  obtain e al where x: "x = (e, al)" by (cases x)
  from Cons.prems(1) obtain v a' where v: "eval wh row e = Inr v"
    and a': "project wh xs row = Inr a'" and a: "a = (al, v) # a'"
    by (auto simp: x split: sum.splits)
  then show ?case using Cons.IH [OF a' Cons.prems(2)] by (simp add: x)
qed

text \<open>A loop of the builder over a column list: when every column of the list evaluates
  under its fragment, the loop's items project to the list of the results.\<close>

lemma project_map:
  assumes "list_all (\<lambda>c. eval wh row (fst (part c)) = Inr (f c) \<and> snd (part c) = c) cs"
  shows "project wh (map part cs) row = Inr (map (\<lambda>c. (c, f c)) cs)"
  using assms
proof (induction cs)
  case Nil
  then show ?case by simp
next
  case (Cons c cs)
  then show ?case by (cases "part c") auto
qed

lemma project_booleans:
  assumes "list_all (\<lambda>c. case row c of None \<Rightarrow> False | Some v \<Rightarrow> has_type BOOLEAN v) cs"
  shows "project wh (map boolean_part cs) row
         = Inr (map (\<lambda>c. (c, rule_table wh BOOLEAN (the (row c)))) cs)"
proof (rule project_map)
  show "list_all (\<lambda>c. eval wh row (fst (boolean_part c)) = Inr (rule_table wh BOOLEAN (the (row c)))
                    \<and> snd (boolean_part c) = c) cs"
    using assms
    by (rule list.pred_mono_strong) (auto simp: eval_boolean_part snd_parts split: option.splits)
qed

lemma project_categoricals:
  assumes "list_all (\<lambda>c. row c \<noteq> None) cs"
  shows "project wh (map categorical_part cs) row
         = Inr (map (\<lambda>c. (c, rule_table wh VARCHAR (the (row c)))) cs)"
proof (rule project_map)
  show "list_all (\<lambda>c. eval wh row (fst (categorical_part c)) = Inr (rule_table wh VARCHAR (the (row c)))
                    \<and> snd (categorical_part c) = c) cs"
    using assms
    by (rule list.pred_mono_strong) (auto simp: eval_categorical_part snd_parts)
qed

lemma project_numerics:
  assumes "list_all (\<lambda>c. case row c of None \<Rightarrow> False | Some v \<Rightarrow> has_type NUMBER v) cs"
  shows "project wh (map numeric_part cs) row
         = Inr (map (\<lambda>c. (c, rule_table wh NUMBER (the (row c)))) cs)"
proof (rule project_map)
  show "list_all (\<lambda>c. eval wh row (fst (numeric_part c)) = Inr (rule_table wh NUMBER (the (row c)))
                    \<and> snd (numeric_part c) = c) cs"
    using assms
    by (rule list.pred_mono_strong) (auto simp: eval_numeric_part snd_parts split: option.splits)
qed

lemma project_column:
  assumes "row c \<noteq> None"
  shows "project wh [(Column c, c)] row = Inr [(c, the (row c))]"
  using assms by auto

lemma project_feature_parts:
  assumes "list_all (\<lambda>c. case row c of None \<Rightarrow> False | Some v \<Rightarrow> has_type BOOLEAN v) bs"
    and "list_all (\<lambda>c. row c \<noteq> None) cs"
    and "list_all (\<lambda>c. case row c of None \<Rightarrow> False | Some v \<Rightarrow> has_type NUMBER v) ns"
  shows "project wh (map boolean_part bs @ map categorical_part cs @ map numeric_part ns) row
         = Inr (cleaned_record wh bs cs ns row)"
  unfolding cleaned_record_def
  by (intro project_append project_booleans project_categoricals project_numerics assms)

text \<open>
  Claim C1. On every row that gives each contract column a value of its declared type
  (null included), the select list of either extractor succeeds and produces the
  specification's Cleaned Record of that row: every boolean column of the contract 1 when
  true and 0 when false or null, every categorical column its text and the literal MISSING
  exactly in place of a null (the empty string stays the empty string), every numeric
  column its number and 0 in place of a null. The result is a function of the row alone
  (no other row enters). The training extractor appends the target column as it is; the
  inference extractor puts the ID column first.
\<close>

theorem cleaning_rule_table:
  assumes "list_all (\<lambda>c. case row c of None \<Rightarrow> False | Some v \<Rightarrow> has_type BOOLEAN v)
             BOOLEAN_FEATURES_extract_training"
    and "list_all (\<lambda>c. row c \<noteq> None) CATEGORICAL_FEATURES_extract_training"
    and "list_all (\<lambda>c. case row c of None \<Rightarrow> False | Some v \<Rightarrow> has_type NUMBER v)
             NUMERIC_FEATURES_extract_training"
  shows "(row TARGET_extract_training \<noteq> None \<longrightarrow>
            project wh select_parts_training row
            = Inr (cleaned_record wh BOOLEAN_FEATURES_extract_training
                     CATEGORICAL_FEATURES_extract_training NUMERIC_FEATURES_extract_training row
                   @ [(TARGET_extract_training, the (row TARGET_extract_training))]))
       \<and> (row id_column \<noteq> None \<longrightarrow>
            project wh (select_parts_inference id_column) row
            = Inr ((id_column, the (row id_column))
                   # cleaned_record wh BOOLEAN_FEATURES_extract_training
                       CATEGORICAL_FEATURES_extract_training NUMERIC_FEATURES_extract_training row))
       \<and> rule_table wh BOOLEAN (SBool True) = SNum 1
       \<and> rule_table wh BOOLEAN (SBool False) = SNum 0
       \<and> rule_table wh BOOLEAN SNull = SNum 0
       \<and> rule_table wh VARCHAR SNull = SStr ''MISSING''
       \<and> rule_table wh VARCHAR (SStr s) = SStr s
       \<and> rule_table wh VARCHAR (SStr []) = SStr []
       \<and> rule_table wh NUMBER SNull = SNum 0
       \<and> rule_table wh NUMBER (SNum n) = SNum n"
proof -
  have f: "project wh (map boolean_part BOOLEAN_FEATURES_extract_training
                       @ map categorical_part CATEGORICAL_FEATURES_extract_training
                       @ map numeric_part NUMERIC_FEATURES_extract_training) row
           = Inr (cleaned_record wh BOOLEAN_FEATURES_extract_training
                     CATEGORICAL_FEATURES_extract_training NUMERIC_FEATURES_extract_training row)"
    by (rule project_feature_parts [OF assms])
  have t: "row TARGET_extract_training \<noteq> None \<Longrightarrow>
            project wh select_parts_training row
            = Inr (cleaned_record wh BOOLEAN_FEATURES_extract_training
                     CATEGORICAL_FEATURES_extract_training NUMERIC_FEATURES_extract_training row
                   @ [(TARGET_extract_training, the (row TARGET_extract_training))])"
    using project_append [OF f project_column, of TARGET_extract_training]
    by (simp add: select_parts_training_def)
  have i: "row id_column \<noteq> None \<Longrightarrow>
            project wh (select_parts_inference id_column) row
            = Inr ((id_column, the (row id_column))
                   # cleaned_record wh BOOLEAN_FEATURES_extract_training
                       CATEGORICAL_FEATURES_extract_training NUMERIC_FEATURES_extract_training row)"
    using project_append [OF project_column f, of id_column]
    by (simp add: select_parts_inference_def boolean_features_agree categorical_features_agree
        numeric_features_agree)
  show ?thesis using t i by simp
qed

text \<open>
  The first end-to-end scenario: a row with hosting true and every other feature null
  (city and latitude among them) is cleaned to hosting 1, city MISSING, latitude 0, by
  both select lists.
\<close>

theorem cleaning_rule_table_witness:
  "\<forall>wh.
     list_all (\<lambda>c. case ((\<lambda>c. Some SNull)(''IP_API_HOSTING'' \<mapsto> SBool True,
                        ''IPQS_DEVICE_FP_FRAUD_SCORE'' \<mapsto> SNum 50, ''VISIT_ID'' \<mapsto> SStr ''a1'')) c of
                     None \<Rightarrow> False | Some v \<Rightarrow> has_type BOOLEAN v)
       BOOLEAN_FEATURES_extract_training
   \<and> list_all (\<lambda>c. ((\<lambda>c. Some SNull)(''IP_API_HOSTING'' \<mapsto> SBool True,
                        ''IPQS_DEVICE_FP_FRAUD_SCORE'' \<mapsto> SNum 50, ''VISIT_ID'' \<mapsto> SStr ''a1'')) c \<noteq> None)
       CATEGORICAL_FEATURES_extract_training
   \<and> list_all (\<lambda>c. case ((\<lambda>c. Some SNull)(''IP_API_HOSTING'' \<mapsto> SBool True,
                        ''IPQS_DEVICE_FP_FRAUD_SCORE'' \<mapsto> SNum 50, ''VISIT_ID'' \<mapsto> SStr ''a1'')) c of
                     None \<Rightarrow> False | Some v \<Rightarrow> has_type NUMBER v)
       NUMERIC_FEATURES_extract_training
   \<and> project wh select_parts_training
        ((\<lambda>c. Some SNull)(''IP_API_HOSTING'' \<mapsto> SBool True,
           ''IPQS_DEVICE_FP_FRAUD_SCORE'' \<mapsto> SNum 50, ''VISIT_ID'' \<mapsto> SStr ''a1''))
      = Inr (cleaned_record wh BOOLEAN_FEATURES_extract_training
               CATEGORICAL_FEATURES_extract_training NUMERIC_FEATURES_extract_training
               ((\<lambda>c. Some SNull)(''IP_API_HOSTING'' \<mapsto> SBool True,
                  ''IPQS_DEVICE_FP_FRAUD_SCORE'' \<mapsto> SNum 50, ''VISIT_ID'' \<mapsto> SStr ''a1''))
             @ [(''IPQS_DEVICE_FP_FRAUD_SCORE'', SNum 50)])
   \<and> project wh (select_parts_inference ''VISIT_ID'')
        ((\<lambda>c. Some SNull)(''IP_API_HOSTING'' \<mapsto> SBool True,
           ''IPQS_DEVICE_FP_FRAUD_SCORE'' \<mapsto> SNum 50, ''VISIT_ID'' \<mapsto> SStr ''a1''))
      = Inr ((''VISIT_ID'', SStr ''a1'')
             # cleaned_record wh BOOLEAN_FEATURES_extract_training
                 CATEGORICAL_FEATURES_extract_training NUMERIC_FEATURES_extract_training
                 ((\<lambda>c. Some SNull)(''IP_API_HOSTING'' \<mapsto> SBool True,
                    ''IPQS_DEVICE_FP_FRAUD_SCORE'' \<mapsto> SNum 50, ''VISIT_ID'' \<mapsto> SStr ''a1'')))
   \<and> map (map_of (cleaned_record wh BOOLEAN_FEATURES_extract_training
               CATEGORICAL_FEATURES_extract_training NUMERIC_FEATURES_extract_training
               ((\<lambda>c. Some SNull)(''IP_API_HOSTING'' \<mapsto> SBool True,
                  ''IPQS_DEVICE_FP_FRAUD_SCORE'' \<mapsto> SNum 50, ''VISIT_ID'' \<mapsto> SStr ''a1''))))
         [''IP_API_HOSTING'', ''IP_API_CITY'', ''IP_API_LATITUDE'']
      = [Some (SNum 1), Some (SStr ''MISSING''), Some (SNum 0)]"
proof
  fix wh :: warehouse
  let ?row = "(\<lambda>c. Some SNull)(''IP_API_HOSTING'' \<mapsto> SBool True,
                ''IPQS_DEVICE_FP_FRAUD_SCORE'' \<mapsto> SNum 50, ''VISIT_ID'' \<mapsto> SStr ''a1'')"
  have b: "list_all (\<lambda>c. case ?row c of None \<Rightarrow> False | Some v \<Rightarrow> has_type BOOLEAN v)
             BOOLEAN_FEATURES_extract_training"
    by code_simp
  have c: "list_all (\<lambda>c. ?row c \<noteq> None) CATEGORICAL_FEATURES_extract_training"
    by (simp add: list_all_iff)
  have n: "list_all (\<lambda>c. case ?row c of None \<Rightarrow> False | Some v \<Rightarrow> has_type NUMBER v)
             NUMERIC_FEATURES_extract_training"
    by code_simp
  have l: "map (map_of (cleaned_record wh BOOLEAN_FEATURES_extract_training
               CATEGORICAL_FEATURES_extract_training NUMERIC_FEATURES_extract_training ?row))
         [''IP_API_HOSTING'', ''IP_API_CITY'', ''IP_API_LATITUDE'']
      = [Some (SNum 1), Some (SStr ''MISSING''), Some (SNum 0)]"
    by code_simp
  have t: "?row TARGET_extract_training = Some (SNum 50)"
    by (simp add: TARGET_extract_training_def)
  have i: "?row ''VISIT_ID'' = Some (SStr ''a1'')"
    by simp
  have t': "?row TARGET_extract_training \<noteq> None" and i': "?row ''VISIT_ID'' \<noteq> None"
    using t i by simp_all
  have "project wh select_parts_training ?row
         = Inr (cleaned_record wh BOOLEAN_FEATURES_extract_training
               CATEGORICAL_FEATURES_extract_training NUMERIC_FEATURES_extract_training ?row
             @ [(TARGET_extract_training, the (?row TARGET_extract_training))])"
    using cleaning_rule_table [OF b c n, of wh "''VISIT_ID''"] t' by blast
  then have p1: "project wh select_parts_training ?row
         = Inr (cleaned_record wh BOOLEAN_FEATURES_extract_training
               CATEGORICAL_FEATURES_extract_training NUMERIC_FEATURES_extract_training ?row
             @ [(''IPQS_DEVICE_FP_FRAUD_SCORE'', SNum 50)])"
    using t by (simp add: TARGET_extract_training_def)
  have "project wh (select_parts_inference ''VISIT_ID'') ?row
         = Inr ((''VISIT_ID'', the (?row ''VISIT_ID''))
             # cleaned_record wh BOOLEAN_FEATURES_extract_training
                 CATEGORICAL_FEATURES_extract_training NUMERIC_FEATURES_extract_training ?row)"
    using cleaning_rule_table [OF b c n, of wh "''VISIT_ID''"] i' by blast
  then have p2: "project wh (select_parts_inference ''VISIT_ID'') ?row
         = Inr ((''VISIT_ID'', SStr ''a1'')
             # cleaned_record wh BOOLEAN_FEATURES_extract_training
                 CATEGORICAL_FEATURES_extract_training NUMERIC_FEATURES_extract_training ?row)"
    by (simp only: i option.sel)
  show "list_all (\<lambda>c. case ?row c of None \<Rightarrow> False | Some v \<Rightarrow> has_type BOOLEAN v)
          BOOLEAN_FEATURES_extract_training
      \<and> list_all (\<lambda>c. ?row c \<noteq> None) CATEGORICAL_FEATURES_extract_training
      \<and> list_all (\<lambda>c. case ?row c of None \<Rightarrow> False | Some v \<Rightarrow> has_type NUMBER v)
          NUMERIC_FEATURES_extract_training
      \<and> project wh select_parts_training ?row
         = Inr (cleaned_record wh BOOLEAN_FEATURES_extract_training
               CATEGORICAL_FEATURES_extract_training NUMERIC_FEATURES_extract_training ?row
             @ [(''IPQS_DEVICE_FP_FRAUD_SCORE'', SNum 50)])
      \<and> project wh (select_parts_inference ''VISIT_ID'') ?row
         = Inr ((''VISIT_ID'', SStr ''a1'')
             # cleaned_record wh BOOLEAN_FEATURES_extract_training
                 CATEGORICAL_FEATURES_extract_training NUMERIC_FEATURES_extract_training ?row)
      \<and> map (map_of (cleaned_record wh BOOLEAN_FEATURES_extract_training
               CATEGORICAL_FEATURES_extract_training NUMERIC_FEATURES_extract_training ?row))
         [''IP_API_HOSTING'', ''IP_API_CITY'', ''IP_API_LATITUDE'']
      = [Some (SNum 1), Some (SStr ''MISSING''), Some (SNum 0)]"
    using b c n p1 p2 l by blast
qed

section \<open>The train/test split of the training query\<close>

lemma data_split_fifth: "DATA_SPLIT k (1 / 5) = (if sint k \<le> 0 then TEST else TRAIN)"
proof -
  have "(rat_of_int (sint k) < 1 / 5) = (sint k \<le> 0)"
  proof
    assume "rat_of_int (sint k) < 1 / 5"
    then have "rat_of_int (sint k) < 1" by linarith
    then have "sint k < 1" by (simp only: of_int_less_1_iff)
    then show "sint k \<le> 0" by simp
  next
    assume "sint k \<le> 0"
    then have "rat_of_int (sint k) \<le> 0" by (simp only: of_int_le_0_iff)
    then show "rat_of_int (sint k) < 1 / 5" by linarith
  qed
  then show ?thesis by (simp add: DATA_SPLIT_def)
qed

lemma data_split_nine_tenths: "DATA_SPLIT k (9 / 10) = (if sint k \<le> 0 then TEST else TRAIN)"
proof -
  have "(rat_of_int (sint k) < 9 / 10) = (sint k \<le> 0)"
  proof
    assume "rat_of_int (sint k) < 9 / 10"
    then have "rat_of_int (sint k) < 1" by linarith
    then have "sint k < 1" by (simp only: of_int_less_1_iff)
    then show "sint k \<le> 0" by simp
  next
    assume "sint k \<le> 0"
    then have "rat_of_int (sint k) \<le> 0" by (simp only: of_int_le_0_iff)
    then show "rat_of_int (sint k) < 9 / 10" by linarith
  qed
  then show ?thesis by (simp add: DATA_SPLIT_def)
qed

text \<open>Every labelled row goes to exactly one of the two outputs.\<close>

lemma train_test_partition:
  "length (train_rows df) + length (test_rows df) = length df"
proof -
  have "filter (\<lambda>r. data_split r = TRAIN) df = filter (\<lambda>r. data_split r \<noteq> TEST) df"
    by (rule filter_cong) (auto intro: data_split.exhaust)
  then show ?thesis
    using sum_length_filter_compl [of "\<lambda>r. data_split r = TEST" df]
    by (simp add: train_rows_def test_rows_def)
qed

lemma project_training_example:
  "project wh select_parts_training ((\<lambda>c. Some SNull)(''IPQS_DEVICE_FP_FRAUD_SCORE'' \<mapsto> SNum 50))
   = Inr (cleaned_record wh BOOLEAN_FEATURES_extract_training
            CATEGORICAL_FEATURES_extract_training NUMERIC_FEATURES_extract_training
            ((\<lambda>c. Some SNull)(''IPQS_DEVICE_FP_FRAUD_SCORE'' \<mapsto> SNum 50))
          @ [(''IPQS_DEVICE_FP_FRAUD_SCORE'', SNum 50)])"
proof -
  let ?row = "(\<lambda>c. Some SNull)(''IPQS_DEVICE_FP_FRAUD_SCORE'' \<mapsto> SNum 50)"
  have b: "list_all (\<lambda>c. case ?row c of None \<Rightarrow> False | Some v \<Rightarrow> has_type BOOLEAN v)
             BOOLEAN_FEATURES_extract_training"
    by code_simp
  have c: "list_all (\<lambda>c. ?row c \<noteq> None) CATEGORICAL_FEATURES_extract_training"
    by (simp add: list_all_iff)
  have n: "list_all (\<lambda>c. case ?row c of None \<Rightarrow> False | Some v \<Rightarrow> has_type NUMBER v)
             NUMERIC_FEATURES_extract_training"
    by code_simp
  have t: "project wh [(Column TARGET_extract_training, TARGET_extract_training)] ?row
        = Inr [(''IPQS_DEVICE_FP_FRAUD_SCORE'', SNum 50)]"
    by (simp add: TARGET_extract_training_def)
  show ?thesis
    using project_append [OF project_feature_parts [OF b c n] t]
    by (simp only: select_parts_training_def append_assoc)
qed

text \<open>
  Claim C3: every eligible row gets a uniform draw in [0,1) keyed by the seed and is
  labelled TEST exactly when the draw is below the test fraction. The labelling and the
  partition into two outputs are as claimed, but the draw of the query is the warehouse's
  \<^verbatim>\<open>RANDOM(seed)\<close>, a 64-bit signed integer: with the default fraction 0.20 a row is TEST
  exactly when its key is zero or negative, and the fraction 0.90 gives the same labels.
  Here three eligible rows with the keys -3, 0 and 7.
\<close>

theorem split_key_is_not_a_fraction:
  "map_sum id (map (\<lambda>r. (sint (split_key r), data_split r)))
     (preprocessing_query wh (\<lambda>seed. (\<lambda>i. 7)(0 := - 3, 1 := 0)) 100
        [\<lparr>cells = (\<lambda>c. Some SNull)(''IPQS_DEVICE_FP_FRAUD_SCORE'' \<mapsto> SNum 50), CREATED_AT = Some 90\<rparr>,
         \<lparr>cells = (\<lambda>c. Some SNull)(''IPQS_DEVICE_FP_FRAUD_SCORE'' \<mapsto> SNum 50), CREATED_AT = Some 95\<rparr>,
         \<lparr>cells = (\<lambda>c. Some SNull)(''IPQS_DEVICE_FP_FRAUD_SCORE'' \<mapsto> SNum 50), CREATED_AT = Some 99\<rparr>]
        30 (1 / 5) 42)
   = Inr [(- 3, TEST), (0, TEST), (7, TRAIN)]
   \<and> DATA_SPLIT k (1 / 5) = (if sint k \<le> 0 then TEST else TRAIN)
   \<and> DATA_SPLIT k (9 / 10) = DATA_SPLIT k (1 / 5)"
proof -
  have e: "training_eligible 100 30
             \<lparr>cells = (\<lambda>c. Some SNull)(''IPQS_DEVICE_FP_FRAUD_SCORE'' \<mapsto> SNum 50), CREATED_AT = Some d\<rparr>
           = (70 \<le> d)" for d
    by (simp add: training_eligible_def TARGET_extract_training_def)
  have s: "sint (- 3 :: 64 word) = - 3" "sint (0 :: 64 word) = 0" "sint (7 :: 64 word) = 7"
    by simp_all
  show ?thesis
    by (simp add: preprocessing_query_def e project_training_example data_split_fifth
        data_split_nine_tenths s)
qed


section \<open>The encoder: codes, round trip, persistence\<close>

lemma index_of_None: "index_of xs x = None \<longleftrightarrow> x \<notin> set xs"
  by (induction xs) auto

lemma index_of_Some: "index_of xs x = Some i \<Longrightarrow> i < length xs \<and> xs ! i = x"
  by (induction xs arbitrary: i) (auto split: if_splits)

text \<open>In a sorted list without repetitions, the position of an element is the number of
  elements below it.\<close>

lemma index_of_sorted_rank:
  fixes xs :: "'a::linorder list"
  assumes "sorted xs" "distinct xs" "x \<in> set xs"
  shows "index_of xs x = Some (card {t \<in> set xs. t < x})"
  using assms
proof (induction xs)
  case Nil
  then show ?case by simp
next
  case (Cons y ys)
  show ?case
  proof (cases "x = y")
    case True
    have "{t \<in> set (y # ys). t < x} = {}"
      using Cons.prems True by auto
    then show ?thesis using True by simp
  next
    case False
    then have xin: "x \<in> set ys" using Cons.prems by simp
    have ylt: "y < x" using Cons.prems xin False by auto
    have yn: "y \<notin> set ys" using Cons.prems by simp
    have "{t \<in> set (y # ys). t < x} = insert y {t \<in> set ys. t < x}"
      using ylt by auto
    then have "card {t \<in> set (y # ys). t < x} = Suc (card {t \<in> set ys. t < x})"
      using yn by simp
    moreover have "index_of ys x = Some (card {t \<in> set ys. t < x})"
      using Cons.IH Cons.prems xin by simp
    ultimately show ?thesis using False by simp
  qed
qed

lemma encode_seen:
  "s \<in> set vs \<Longrightarrow> encode_value u (sort (remdups vs)) s = int (card {t \<in> set vs. t < s})"
  using index_of_sorted_rank [of "sort (remdups vs)" s]
  by (simp add: encode_value_def)

lemma encode_unseen: "s \<notin> set vs \<Longrightarrow> encode_value u (sort (remdups vs)) s = u"
  using index_of_None [of "sort (remdups vs)" s]
  by (simp add: encode_value_def)

lemma fit_Inr:
  assumes "fit u X = Inr enc"
  shows "unknown_value enc = u" and "feature_names_in enc = column_names X"
    and "categories enc = map (\<lambda>cv. sort (remdups (snd cv))) (columns X)"
  using assms by (auto simp: fit_def split: if_splits)

lemma transform_Inr:
  assumes "transform enc Y = Inr codes"
  shows "column_names Y = feature_names_in enc"
    and "codes = map (\<lambda>(cats, cv). map (encode_value (unknown_value enc) cats) (snd cv))
                   (zip (categories enc) (columns Y))"
  using assms by (auto simp: transform_def split: if_splits)

text \<open>
  The second end-to-end scenario on the code: the trainer fits on US, CA, US and the
  encoder then codes US, CA, MX as 1, 0, -1, because the categories are kept sorted
  (CA before US).
\<close>

lemma prepare_features_scenario:
  "prepare_features num_str
     \<lparr>n_rows = 3, columns = [(''IP_API_COUNTRY_CODE'', [StrV ''US'', StrV ''CA'', StrV ''US''])]\<rparr>
     None True
   = Inr (\<lparr>n_rows = 3,
            columns = [(''IP_API_COUNTRY_CODE_ENCODED'', [NumV 1, NumV 0, NumV 1])]\<rparr>,
          None,
          \<lparr>unknown_value = - 1, feature_names_in = [''IP_API_COUNTRY_CODE''],
           categories = [[''CA'', ''US'']]\<rparr>)"
  by code_simp

text \<open>
  Claim C2, as stated: codes follow the order of first occurrence, so that fitting on US,
  CA, US and applying to US, CA, MX gives 0, 1, -1. On the code the result is 1, 0, -1.
\<close>

theorem first_occurrence_counterexample:
  "fit (- 1) \<lparr>n_rows = 3, columns = [(''IP_API_COUNTRY_CODE'', [''US'', ''CA'', ''US''])]\<rparr>
     = Inr \<lparr>unknown_value = - 1, feature_names_in = [''IP_API_COUNTRY_CODE''],
            categories = [[''CA'', ''US'']]\<rparr>
   \<and> transform \<lparr>unknown_value = - 1, feature_names_in = [''IP_API_COUNTRY_CODE''],
                 categories = [[''CA'', ''US'']]\<rparr>
        \<lparr>n_rows = 3, columns = [(''IP_API_COUNTRY_CODE'', [''US'', ''CA'', ''MX''])]\<rparr>
     = Inr [[1, 0, - 1]]
   \<and> transform \<lparr>unknown_value = - 1, feature_names_in = [''IP_API_COUNTRY_CODE''],
                 categories = [[''CA'', ''US'']]\<rparr>
        \<lparr>n_rows = 3, columns = [(''IP_API_COUNTRY_CODE'', [''US'', ''CA'', ''MX''])]\<rparr>
     \<noteq> Inr [[0, 1, - 1]]"
  by (simp add: fit_def transform_def column_names_def encode_value_def)

text \<open>
  Claim C2, amended: fit assigns each distinct observed string of a column the integer
  code given by its rank in the sorted order of the column's distinct observed strings
  (the number of distinct observed strings below it); apply maps every string observed at
  fit time to that code and every unseen string to -1.
\<close>

theorem encoder_codes_sorted_rank:
  assumes "fit (- 1) X = Inr enc" and "transform enc Y = Inr codes"
  shows "codes =
           map (\<lambda>(cx, cy).
                  map (\<lambda>s. if s \<in> set (snd cx)
                           then int (card {t \<in> set (snd cx). t < s}) else - 1)
                      (snd cy))
               (zip (columns X) (columns Y))"
proof -
  have "codes = map (\<lambda>(cats, cv). map (encode_value (- 1) cats) (snd cv))
                  (zip (map (\<lambda>cv. sort (remdups (snd cv))) (columns X)) (columns Y))"
    using transform_Inr(2) [OF assms(2)] fit_Inr(1,3) [OF assms(1)] by simp
  also have "\<dots> = map (\<lambda>(cx, cy). map (encode_value (- 1) (sort (remdups (snd cx)))) (snd cy))
                  (zip (columns X) (columns Y))"
    by (simp add: zip_map1 case_prod_unfold)
  also have "\<dots> = map (\<lambda>(cx, cy).
                  map (\<lambda>s. if s \<in> set (snd cx)
                           then int (card {t \<in> set (snd cx). t < s}) else - 1)
                      (snd cy))
               (zip (columns X) (columns Y))"
    by (rule map_cong [OF refl]) (auto simp: encode_seen encode_unseen)
  finally show ?thesis .
qed

theorem encoder_codes_sorted_rank_witness:
  "fit (- 1) \<lparr>n_rows = 3, columns = [(''IP_API_COUNTRY_CODE'', [''US'', ''CA'', ''US''])]\<rparr>
     = Inr \<lparr>unknown_value = - 1, feature_names_in = [''IP_API_COUNTRY_CODE''],
            categories = [[''CA'', ''US'']]\<rparr>
   \<and> transform \<lparr>unknown_value = - 1, feature_names_in = [''IP_API_COUNTRY_CODE''],
                 categories = [[''CA'', ''US'']]\<rparr>
        \<lparr>n_rows = 3, columns = [(''IP_API_COUNTRY_CODE'', [''US'', ''CA'', ''MX''])]\<rparr>
     = Inr [[1, 0, - 1]]
   \<and> [[1, 0, - 1]] =
       map (\<lambda>(cx, cy).
              map (\<lambda>s. if s \<in> set (snd cx)
                       then int (card {t \<in> set (snd cx). t < s}) else - 1)
                  (snd cy))
           (zip [(''IP_API_COUNTRY_CODE'', [''US'', ''CA'', ''US''])]
                [(''IP_API_COUNTRY_CODE'', [''US'', ''CA'', ''MX''])])"
proof -
  have f: "fit (- 1) \<lparr>n_rows = 3, columns = [(''IP_API_COUNTRY_CODE'', [''US'', ''CA'', ''US''])]\<rparr>
     = Inr \<lparr>unknown_value = - 1, feature_names_in = [''IP_API_COUNTRY_CODE''],
            categories = [[''CA'', ''US'']]\<rparr>"
    by (simp add: fit_def column_names_def)
  have t: "transform \<lparr>unknown_value = - 1, feature_names_in = [''IP_API_COUNTRY_CODE''],
                 categories = [[''CA'', ''US'']]\<rparr>
        \<lparr>n_rows = 3, columns = [(''IP_API_COUNTRY_CODE'', [''US'', ''CA'', ''MX''])]\<rparr>
     = Inr [[1, 0, - 1]]"
    by (simp add: transform_def column_names_def encode_value_def)
  show ?thesis
    using f t encoder_codes_sorted_rank [OF f t] by simp
qed


section \<open>Frames: selection, concatenation, assembly\<close>

lemma filter_fst_absent:
  "n \<notin> set (map fst cols) \<Longrightarrow> filter (\<lambda>cv. fst cv = n) cols = []"
  by (induction cols) auto

lemma filter_fst_distinct:
  assumes "distinct (map fst cols)" and "n \<in> set (map fst cols)"
  shows "map fst (filter (\<lambda>cv. fst cv = n) cols) = [n]"
  using assms
proof (induction cols)
  case Nil
  then show ?case by simp
next
  case (Cons c cols)
  show ?case
  proof (cases "fst c = n")
    case True
    then have "n \<notin> set (map fst cols)" using Cons.prems(1) by auto
    then have "filter (\<lambda>cv. fst cv = n) cols = []"
      by (rule filter_fst_absent)
    then show ?thesis using True by simp
  next
    case False
    then show ?thesis using Cons by auto
  qed
qed

lemma getitem_Inr:
  assumes "getitem df names = Inr Y"
  shows "set names \<subseteq> set (column_names df)" and "n_rows Y = n_rows df"
    and "columns Y = concat (map (\<lambda>n. filter (\<lambda>cv. fst cv = n) (columns df)) names)"
proof -
  have e: "filter (\<lambda>n. n \<notin> set (column_names df)) names = []"
    using assms by (auto simp: getitem_def split: list.splits)
  then show "set names \<subseteq> set (column_names df)"
    by (auto simp: filter_empty_conv)
  show "n_rows Y = n_rows df"
    and "columns Y = concat (map (\<lambda>n. filter (\<lambda>cv. fst cv = n) (columns df)) names)"
    using assms e by (auto simp: getitem_def)
qed

lemma getitem_Inl:
  assumes "n \<in> set names" and "n \<notin> set (column_names df)"
  shows "\<exists>e. getitem df names = Inl e"
proof -
  have "n \<in> set (filter (\<lambda>n. n \<notin> set (column_names df)) names)"
    using assms by simp
  then have "filter (\<lambda>n. n \<notin> set (column_names df)) names \<noteq> []"
    by (metis empty_iff empty_set)
  then show ?thesis
    by (auto simp: getitem_def split: list.splits)
qed

lemma getitem_present:
  assumes "set names \<subseteq> set (column_names df)"
  shows "getitem df names
         = Inr \<lparr>n_rows = n_rows df,
                columns = concat (map (\<lambda>n. filter (\<lambda>cv. fst cv = n) (columns df)) names)\<rparr>"
proof -
  have "filter (\<lambda>n. n \<notin> set (column_names df)) names = []"
    using assms by (auto simp: filter_empty_conv)
  then show ?thesis by (simp add: getitem_def)
qed

lemma concat_filter_names:
  assumes "distinct (map fst cols)" and "set names \<subseteq> set (map fst cols)"
  shows "map fst (concat (map (\<lambda>n. filter (\<lambda>cv. fst cv = n) cols) names)) = names"
  using assms(2)
proof (induction names)
  case Nil
  then show ?case by simp
next
  case (Cons n names)
  then show ?case using filter_fst_distinct [OF assms(1), of n] by simp
qed

lemma getitem_column_names:
  assumes "getitem df names = Inr Y" and "distinct (column_names df)"
  shows "column_names Y = names"
  using getitem_Inr(1,3) [OF assms(1)] concat_filter_names [of "columns df" names] assms(2)
  by (simp add: column_names_def)

text \<open>Selecting the columns of a frame in the frame's own order gives the frame.\<close>

lemma concat_filter_self:
  assumes "distinct (map fst cols)"
  shows "concat (map (\<lambda>n. filter (\<lambda>cv. fst cv = n) cols) (map fst cols)) = cols"
  using assms
proof (induction cols)
  case Nil
  then show ?case by simp
next
  case (Cons c cols)
  let ?F = "\<lambda>cs n. filter (\<lambda>cv. fst cv = n) cs"
  have nc: "fst c \<notin> set (map fst cols)" using Cons.prems by simp
  have a: "?F (c # cols) (fst c) = [c]"
    using filter_fst_absent [OF nc] by simp
  have b: "map (?F (c # cols)) (map fst cols) = map (?F cols) (map fst cols)"
    using nc by (intro map_cong) auto
  have ih: "concat (map (?F cols) (map fst cols)) = cols"
    using Cons.IH Cons.prems by simp
  have "concat (map (?F (c # cols)) (map fst (c # cols)))
        = ?F (c # cols) (fst c) @ concat (map (?F (c # cols)) (map fst cols))"
    by simp
  also have "\<dots> = [c] @ cols"
    by (simp only: a b ih)
  finally show ?case by simp
qed

lemma getitem_self:
  assumes "distinct (column_names X)"
  shows "getitem X (column_names X) = Inr X"
proof -
  have "getitem X (column_names X)
        = Inr \<lparr>n_rows = n_rows X,
               columns = concat (map (\<lambda>n. filter (\<lambda>cv. fst cv = n) (columns X)) (column_names X))\<rparr>"
    by (rule getitem_present) simp
  then show ?thesis
    using concat_filter_self [of "columns X"] assms by (simp add: column_names_def)
qed

lemma getitem_idem:
  assumes "getitem X names = Inr Y" and "distinct (column_names X)" and "distinct names"
  shows "getitem Y names = Inr Y"
proof -
  have "column_names Y = names" using getitem_column_names [OF assms(1,2)] .
  then show ?thesis using getitem_self [of Y] assms(3) by simp
qed

lemma concat_column_names:
  "concat (map (\<lambda>d. map fst (columns d)) dfs) = concat (map column_names dfs)"
  by (induction dfs) (simp_all add: column_names_def)

lemma column_names_concat_axis1:
  "column_names (concat_axis1 dfs) = concat (map column_names dfs)"
proof -
  have "column_names (concat_axis1 dfs) = map fst (columns (concat_axis1 dfs))"
    by (simp add: column_names_def)
  also have "\<dots> = concat (map (\<lambda>d. map fst (columns d)) dfs)"
    by (simp add: concat_axis1_def Let_def map_concat comp_def)
  finally show ?thesis by (simp only: concat_column_names)
qed

lemma n_rows_concat_axis1: "n_rows (concat_axis1 dfs) = foldr max (map n_rows dfs) 0"
  by (simp add: concat_axis1_def Let_def)

lemma DataFrame_Inr:
  assumes "DataFrame n array names = Inr d"
  shows "column_names d = names" and "n_rows d = n"
  using assms by (auto simp: DataFrame_def column_names_def split: if_splits)




lemma distinct_boolean: "distinct BOOLEAN_FEATURES_inference"
  by code_simp

lemma distinct_categorical: "distinct CATEGORICAL_FEATURES_inference"
  by code_simp

lemma distinct_numeric: "distinct NUMERIC_FEATURES_inference"
  by code_simp


lemma boolean_numeric_disjoint:
  "list_all (\<lambda>c. c \<notin> set NUMERIC_FEATURES_inference) BOOLEAN_FEATURES_inference"
  by code_simp


lemma raw_names_last:
  "list_all (\<lambda>c. last c \<noteq> CHR ''D'')
     (BOOLEAN_FEATURES_inference @ NUMERIC_FEATURES_inference)"
  by code_simp

lemma encoded_name_last: "last (c @ ''_ENCODED'') = CHR ''D''"
  by simp

lemma raw_name_not_encoded:
  assumes "c \<in> set (BOOLEAN_FEATURES_inference @ NUMERIC_FEATURES_inference)"
  shows "c \<noteq> x @ ''_ENCODED''"
proof
  assume "c = x @ ''_ENCODED''"
  then have "last c = CHR ''D''" by simp
  moreover have "last c \<noteq> CHR ''D''"
    using raw_names_last assms by (simp only: list_all_iff) blast
  ultimately show False by simp
qed


lemma distinct_assembled:
  "distinct (filter P BOOLEAN_FEATURES_inference
             @ map (\<lambda>c. c @ ''_ENCODED'') (filter P CATEGORICAL_FEATURES_inference)
             @ filter P NUMERIC_FEATURES_inference)"
proof -
  have "distinct (map (\<lambda>c. c @ ''_ENCODED'') (filter P CATEGORICAL_FEATURES_inference))"
    using distinct_categorical by (simp add: distinct_map inj_on_def)
  moreover have "set (filter P BOOLEAN_FEATURES_inference) \<inter> set (filter P NUMERIC_FEATURES_inference) = {}"
    using boolean_numeric_disjoint by (auto simp: list_all_iff)
  moreover have "set (filter P BOOLEAN_FEATURES_inference)
      \<inter> set (map (\<lambda>c. c @ ''_ENCODED'') (filter P CATEGORICAL_FEATURES_inference)) = {}"
    using raw_name_not_encoded by auto
  moreover have "set (map (\<lambda>c. c @ ''_ENCODED'') (filter P CATEGORICAL_FEATURES_inference))
      \<inter> set (filter P NUMERIC_FEATURES_inference) = {}"
    using raw_name_not_encoded by auto
  ultimately show ?thesis
    using distinct_boolean distinct_numeric by (simp add: Int_Un_distrib)
qed

lemma reordered_features_parts:
  assumes "reordered_features num_str st df = Inr X"
  obtains enc names df_bool cat_encoded_df df_num cat_encoded where
    "encoder st = Some enc" "feature_names st = Some names"
    "getitem df (filter (\<lambda>c. c \<in> set (column_names df)) BOOLEAN_FEATURES_inference) = Inr df_bool"
    "DataFrame (n_rows df) cat_encoded
       (map (\<lambda>c. c @ ''_ENCODED'')
          (filter (\<lambda>c. c \<in> set (column_names df)) CATEGORICAL_FEATURES_inference))
     = Inr cat_encoded_df"
    "getitem df (filter (\<lambda>c. c \<in> set (column_names df)) NUMERIC_FEATURES_inference) = Inr df_num"
    "getitem (concat_axis1 [df_bool, cat_encoded_df, df_num]) names = Inr X"
proof -
  let ?B = "filter (\<lambda>c. c \<in> set (column_names df)) BOOLEAN_FEATURES_inference"
  let ?C = "filter (\<lambda>c. c \<in> set (column_names df)) CATEGORICAL_FEATURES_inference"
  let ?N = "filter (\<lambda>c. c \<in> set (column_names df)) NUMERIC_FEATURES_inference"
  note d = reordered_features_def Let_def
  obtain enc where 0: "encoder st = Some enc"
    using assms by (cases "encoder st") (simp_all add: d)
  obtain df_cat where 1: "getitem df ?C = Inr df_cat"
    using assms 0 by (cases "getitem df ?C") (simp_all add: d)
  obtain cat_encoded where 2: "transform enc (astype_str num_str df_cat) = Inr cat_encoded"
    using assms 0 1 by (cases "transform enc (astype_str num_str df_cat)") (simp_all add: d)
  obtain cat_encoded_df where 3: "DataFrame (n_rows df) cat_encoded (map (\<lambda>c. c @ ''_ENCODED'') ?C)
      = Inr cat_encoded_df"
    using assms 0 1 2
    by (cases "DataFrame (n_rows df) cat_encoded (map (\<lambda>c. c @ ''_ENCODED'') ?C)")
       (simp_all add: d)
  obtain df_bool where 4: "getitem df ?B = Inr df_bool"
    using assms 0 1 2 3 by (cases "getitem df ?B") (simp_all add: d)
  obtain df_num where 5: "getitem df ?N = Inr df_num"
    using assms 0 1 2 3 4 by (cases "getitem df ?N") (simp_all add: d)
  obtain names where 6: "feature_names st = Some names"
    using assms 0 1 2 3 4 5 by (cases "feature_names st") (simp_all add: d)
  have "getitem (concat_axis1 [df_bool, cat_encoded_df, df_num]) names = Inr X"
    using assms 0 1 2 3 4 5 6 by (simp add: d)
  then show ?thesis using that 0 6 3 4 5 by blast
qed

text \<open>The names of a selection are, as a set, the names asked for.\<close>

lemma getitem_set_names:
  assumes "getitem df names = Inr Y"
  shows "set (column_names Y) = set names"
proof -
  have s: "set names \<subseteq> fst ` set (columns df)"
    using getitem_Inr(1) [OF assms] by (simp add: column_names_def)
  have "set (column_names Y)
        = (\<Union>n\<in>set names. fst ` {cv \<in> set (columns df). fst cv = n})"
    by (simp add: column_names_def getitem_Inr(3) [OF assms] image_UN)
  also have "\<dots> = set names"
    using s by force
  finally show ?thesis .
qed

lemma assembled_names_set:
  assumes "getitem df bs = Inr df_bool" and "DataFrame n codes cs = Inr cat_encoded_df"
    and "getitem df ns = Inr df_num"
  shows "set (column_names (concat_axis1 [df_bool, cat_encoded_df, df_num]))
         = set bs \<union> set cs \<union> set ns"
  by (simp add: column_names_concat_axis1 getitem_set_names [OF assms(1)]
      getitem_set_names [OF assms(3)] DataFrame_Inr(1) [OF assms(2)] Un_assoc)

lemma assembled_names:
  assumes "getitem df bs = Inr df_bool" and "DataFrame n codes cs = Inr cat_encoded_df"
    and "getitem df ns = Inr df_num" and "distinct (column_names df)"
  shows "column_names (concat_axis1 [df_bool, cat_encoded_df, df_num]) = bs @ cs @ ns"
  by (simp add: column_names_concat_axis1 getitem_column_names [OF assms(1,4)]
      getitem_column_names [OF assms(3,4)] DataFrame_Inr(1) [OF assms(2)])

lemma reordered_features_column_names:
  assumes "reordered_features num_str st df = Inr X" and "distinct (column_names df)"
  shows "feature_names st = Some (column_names X)"
proof (rule reordered_features_parts [OF assms(1)])
  fix enc names cat_encoded and df_bool cat_encoded_df df_num :: "cell frame"
  assume n: "feature_names st = Some names"
    and b: "getitem df (filter (\<lambda>c. c \<in> set (column_names df)) BOOLEAN_FEATURES_inference) = Inr df_bool"
    and c: "DataFrame (n_rows df) cat_encoded
       (map (\<lambda>c. c @ ''_ENCODED'')
          (filter (\<lambda>c. c \<in> set (column_names df)) CATEGORICAL_FEATURES_inference))
     = Inr cat_encoded_df"
    and m: "getitem df (filter (\<lambda>c. c \<in> set (column_names df)) NUMERIC_FEATURES_inference) = Inr df_num"
    and g: "getitem (concat_axis1 [df_bool, cat_encoded_df, df_num]) names = Inr X"
  have "distinct (column_names (concat_axis1 [df_bool, cat_encoded_df, df_num]))"
    by (simp only: assembled_names [OF b c m assms(2)] distinct_assembled)
  then have "column_names X = names"
    using getitem_column_names [OF g] by simp
  then show ?thesis using n by simp
qed

lemma reordered_features_names_subset:
  assumes "reordered_features num_str st df = Inr X" and "feature_names st = Some names"
  shows "set names \<subseteq>
           set (filter (\<lambda>c. c \<in> set (column_names df)) BOOLEAN_FEATURES_inference
                @ map (\<lambda>c. c @ ''_ENCODED'')
                    (filter (\<lambda>c. c \<in> set (column_names df)) CATEGORICAL_FEATURES_inference)
                @ filter (\<lambda>c. c \<in> set (column_names df)) NUMERIC_FEATURES_inference)"
proof (rule reordered_features_parts [OF assms(1)])
  fix enc names' cat_encoded and df_bool cat_encoded_df df_num :: "cell frame"
  assume n: "feature_names st = Some names'"
    and b: "getitem df (filter (\<lambda>c. c \<in> set (column_names df)) BOOLEAN_FEATURES_inference) = Inr df_bool"
    and c: "DataFrame (n_rows df) cat_encoded
       (map (\<lambda>c. c @ ''_ENCODED'')
          (filter (\<lambda>c. c \<in> set (column_names df)) CATEGORICAL_FEATURES_inference))
     = Inr cat_encoded_df"
    and m: "getitem df (filter (\<lambda>c. c \<in> set (column_names df)) NUMERIC_FEATURES_inference) = Inr df_num"
    and g: "getitem (concat_axis1 [df_bool, cat_encoded_df, df_num]) names' = Inr X"
  have "names' = names" using n assms(2) by simp
  then have "set names \<subseteq> set (column_names (concat_axis1 [df_bool, cat_encoded_df, df_num]))"
    using getitem_Inr(1) [OF g] by simp
  then show ?thesis
    by (simp only: assembled_names_set [OF b c m] set_append Un_assoc)
qed

lemma reordered_features_n_rows:
  assumes "reordered_features num_str st df = Inr X"
  shows "n_rows X = n_rows df"
proof (rule reordered_features_parts [OF assms(1)])
  fix enc names cat_encoded and df_bool cat_encoded_df df_num :: "cell frame"
  assume b: "getitem df (filter (\<lambda>c. c \<in> set (column_names df)) BOOLEAN_FEATURES_inference) = Inr df_bool"
    and c: "DataFrame (n_rows df) cat_encoded
       (map (\<lambda>c. c @ ''_ENCODED'')
          (filter (\<lambda>c. c \<in> set (column_names df)) CATEGORICAL_FEATURES_inference))
     = Inr cat_encoded_df"
    and m: "getitem df (filter (\<lambda>c. c \<in> set (column_names df)) NUMERIC_FEATURES_inference) = Inr df_num"
    and g: "getitem (concat_axis1 [df_bool, cat_encoded_df, df_num]) names = Inr X"
  show ?thesis
    by (simp add: getitem_Inr(2) [OF g] n_rows_concat_axis1 getitem_Inr(2) [OF b]
        getitem_Inr(2) [OF m] DataFrame_Inr(2) [OF c])
qed

lemma predict_fn_Inr:
  assumes "predict_fn num_str st df m = Inr scores"
  obtains X where "reordered_features num_str st df = Inr X" and "scores = map m (rows_of X)"
  using assms by (cases "reordered_features num_str st df") (simp_all add: predict_fn_def)

lemma predict_fn_length:
  assumes "predict_fn num_str st df m = Inr scores"
  shows "length scores = n_rows df"
proof (rule predict_fn_Inr [OF assms])
  fix X assume "reordered_features num_str st df = Inr X" and "scores = map m (rows_of X)"
  then show ?thesis
    using reordered_features_n_rows [of num_str st df X] by (simp add: rows_of_def)
qed

lemma predict_fn_missing_name:
  assumes "feature_names st = Some names" and "n \<in> set names"
    and "n \<notin> set (filter (\<lambda>c. c \<in> set (column_names df)) BOOLEAN_FEATURES_inference
                @ map (\<lambda>c. c @ ''_ENCODED'')
                    (filter (\<lambda>c. c \<in> set (column_names df)) CATEGORICAL_FEATURES_inference)
                @ filter (\<lambda>c. c \<in> set (column_names df)) NUMERIC_FEATURES_inference)"
  shows "\<exists>e. predict_fn num_str st df m = Inl e"
proof (cases "predict_fn num_str st df m")
  case (Inl e)
  then show ?thesis by blast
next
  case (Inr scores)
  show ?thesis
  proof (rule predict_fn_Inr [OF Inr])
    fix X assume "reordered_features num_str st df = Inr X"
    then show ?thesis
      using reordered_features_names_subset [OF _ assms(1)] assms(2,3) by blast
  qed
qed

lemma absent_raw_column_not_assembled:
  assumes "c \<notin> set (column_names df)"
  shows "c \<in> set (BOOLEAN_FEATURES_inference @ NUMERIC_FEATURES_inference) \<Longrightarrow>
           c \<notin> set (filter (\<lambda>c. c \<in> set (column_names df)) BOOLEAN_FEATURES_inference
                @ map (\<lambda>c. c @ ''_ENCODED'')
                    (filter (\<lambda>c. c \<in> set (column_names df)) CATEGORICAL_FEATURES_inference)
                @ filter (\<lambda>c. c \<in> set (column_names df)) NUMERIC_FEATURES_inference)"
    and "c @ ''_ENCODED''
           \<notin> set (filter (\<lambda>c. c \<in> set (column_names df)) BOOLEAN_FEATURES_inference
                @ map (\<lambda>c. c @ ''_ENCODED'')
                    (filter (\<lambda>c. c \<in> set (column_names df)) CATEGORICAL_FEATURES_inference)
                @ filter (\<lambda>c. c \<in> set (column_names df)) NUMERIC_FEATURES_inference)"
  using assms raw_name_not_encoded by auto


section \<open>Feature assembly and ordering\<close>


lemma filter_present_subset: "set (filter (\<lambda>c. c \<in> set A) xs) \<subseteq> set A"
  by auto





section \<open>Reindexing is idempotent\<close>

text \<open>
  Claim C5. Reindexing a frame that already has the persisted feature names in their
  order gives the same frame, and reindexing the result of a reindexing again changes
  nothing; in particular the frame \<^verbatim>\<open>predict_fn\<close> hands to the booster is unchanged by a
  second \<^verbatim>\<open>X = X[feature_names]\<close>.
\<close>

theorem reindex_idempotent:
  assumes "distinct (column_names X)" and "distinct names"
  shows "(column_names X = names \<longrightarrow> getitem X names = Inr X)
       \<and> (getitem X names = Inr Y \<longrightarrow> getitem Y names = Inr Y)
       \<and> (reordered_features num_str st df = Inr Z \<longrightarrow> distinct (column_names df) \<longrightarrow>
            feature_names st = Some names \<longrightarrow> getitem Z names = Inr Z)"
proof (intro conjI impI)
  assume "column_names X = names"
  then show "getitem X names = Inr X"
    using getitem_self [OF assms(1)] by simp
next
  assume "getitem X names = Inr Y"
  then show "getitem Y names = Inr Y"
    using getitem_idem assms by blast
next
  assume r: "reordered_features num_str st df = Inr Z" and d: "distinct (column_names df)"
    and n: "feature_names st = Some names"
  have "column_names Z = names"
    using reordered_features_column_names [OF r d] n by simp
  then show "getitem Z names = Inr Z"
    using getitem_self [of Z] assms(2) by simp
qed

theorem reindex_idempotent_witness:
  "distinct (column_names
      \<lparr>n_rows = 1,
       columns = [(''IP_API_LATITUDE'', [NumV 0]), (''IP_API_HOSTING'', [NumV 1]),
                  (''IP_API_CITY_ENCODED'', [NumV 2])]\<rparr>)
   \<and> distinct [''IP_API_HOSTING'', ''IP_API_CITY_ENCODED'', ''IP_API_LATITUDE'']
   \<and> getitem
        \<lparr>n_rows = 1,
         columns = [(''IP_API_LATITUDE'', [NumV 0]), (''IP_API_HOSTING'', [NumV 1]),
                    (''IP_API_CITY_ENCODED'', [NumV 2])]\<rparr>
        [''IP_API_HOSTING'', ''IP_API_CITY_ENCODED'', ''IP_API_LATITUDE'']
      = Inr \<lparr>n_rows = 1,
             columns = [(''IP_API_HOSTING'', [NumV 1]), (''IP_API_CITY_ENCODED'', [NumV 2]),
                        (''IP_API_LATITUDE'', [NumV 0])]\<rparr>
   \<and> getitem
        \<lparr>n_rows = 1,
         columns = [(''IP_API_HOSTING'', [NumV 1]), (''IP_API_CITY_ENCODED'', [NumV 2]),
                    (''IP_API_LATITUDE'', [NumV 0])]\<rparr>
        [''IP_API_HOSTING'', ''IP_API_CITY_ENCODED'', ''IP_API_LATITUDE'']
      = Inr \<lparr>n_rows = 1,
             columns = [(''IP_API_HOSTING'', [NumV 1]), (''IP_API_CITY_ENCODED'', [NumV 2]),
                        (''IP_API_LATITUDE'', [NumV 0])]\<rparr>"
proof -
  let ?X = "\<lparr>n_rows = 1,
         columns = [(''IP_API_LATITUDE'', [NumV 0]), (''IP_API_HOSTING'', [NumV 1]),
                    (''IP_API_CITY_ENCODED'', [NumV 2])]\<rparr> :: cell frame"
  let ?Y = "\<lparr>n_rows = 1,
         columns = [(''IP_API_HOSTING'', [NumV 1]), (''IP_API_CITY_ENCODED'', [NumV 2]),
                    (''IP_API_LATITUDE'', [NumV 0])]\<rparr> :: cell frame"
  let ?names = "[''IP_API_HOSTING'', ''IP_API_CITY_ENCODED'', ''IP_API_LATITUDE'']"
  have d: "distinct (column_names ?X)"
    by (simp add: column_names_def)
  have n: "distinct ?names"
    by simp
  have g: "getitem ?X ?names = Inr ?Y"
    by (simp add: getitem_def column_names_def)
  have "getitem ?Y ?names = Inr ?Y"
    using reindex_idempotent [OF d n, of ?Y] g by blast
  then show ?thesis
    using d n g by blast
qed

lemma os_path_join_relative:
  assumes "name \<noteq> []" and "hd name \<noteq> CHR ''/''"
  shows "os_path_join model_dir name
         = (if model_dir = [] \<or> last model_dir = CHR ''/'' then model_dir else model_dir @ ''/'') @ name"
  using assms by (simp add: os_path_join_def)

lemma artifact_paths_distinct:
  "os_path_join d ''xgboost-model'' \<noteq> os_path_join d ''encoder.pkl''"
  "os_path_join d ''xgboost-model'' \<noteq> os_path_join d ''feature_names.json''"
  "os_path_join d ''encoder.pkl'' \<noteq> os_path_join d ''feature_names.json''"
  by (simp_all add: os_path_join_relative)

text \<open>Loading the directory that \<^verbatim>\<open>save_model\<close> wrote gives back what was saved.\<close>

lemma model_fn_save_model:
  "model_fn (save_model fs m enc names model_dir) model_dir
   = Inr (\<lparr>model = Some m, encoder = Some enc, feature_names = Some names\<rparr>, m)"
  using artifact_paths_distinct [of model_dir]
  by (simp add: model_fn_def save_model_def Let_def)

lemma collect_map_Inr:
  assumes "\<And>x. x \<in> set xs \<Longrightarrow> f x = Inr (g x)"
  shows "collect (map f xs) = Inr (map g xs)"
  using assms by (induction xs) simp_all

lemma encode_value_range:
  "encode_value (- 1) cats s = - 1 \<or> (0 \<le> encode_value (- 1) cats s
      \<and> encode_value (- 1) cats s < int (length cats)
      \<and> cats ! nat (encode_value (- 1) cats s) = s \<and> s \<in> set cats)"
proof (cases "index_of cats s")
  case None
  then show ?thesis by (simp add: encode_value_def)
next
  case (Some i)
  then have "i < length cats" "cats ! i = s"
    using index_of_Some [of cats s i] by simp_all
  then show ?thesis using Some by (auto simp: encode_value_def)
qed

text \<open>Decoding the code of a value gives the value back when it is a category, and
  \<^verbatim>\<open>None\<close> when it is not.\<close>

lemma inverse_encode_value:
  "inverse_transform_value (- 1) cats (encode_value (- 1) cats s)
   = Inr (if s \<in> set cats then Some s else None)"
proof (cases "s \<in> set cats")
  case True
  then obtain i where i: "index_of cats s = Some i"
    using index_of_None [of cats s] by (cases "index_of cats s") auto
  then have "i < length cats" "cats ! i = s"
    using index_of_Some [of cats s i] by simp_all
  then show ?thesis
    using True i by (simp add: encode_value_def inverse_transform_value_def)
next
  case False
  then have "index_of cats s = None" using index_of_None [of cats s] by simp
  then show ?thesis
    using False by (simp add: encode_value_def inverse_transform_value_def)
qed

lemma encode_value_unseen_iff:
  "(s \<notin> set cats) = (encode_value (- 1) cats s = - 1)"
proof (cases "index_of cats s")
  case None
  then show ?thesis using index_of_None [of cats s] by (simp add: encode_value_def)
next
  case (Some i)
  then have "s \<in> set cats"
    using index_of_None [of cats s] by auto
  then show ?thesis using Some by (simp add: encode_value_def)
qed

text \<open>After a fit on \<open>X\<close>, a successful transform of \<open>Y\<close> pairs the columns of the two
  frames one to one.\<close>

lemma fit_transform_shape:
  assumes "fit (- 1) X = Inr enc" and "transform enc Y = Inr codes"
  shows "length (columns Y) = length (columns X)"
    and "categories enc = map (\<lambda>p. sort (remdups (snd (fst p)))) (zip (columns X) (columns Y))"
    and "codes = map (\<lambda>p. map (encode_value (- 1) (sort (remdups (snd (fst p))))) (snd (snd p)))
                   (zip (columns X) (columns Y))"
proof -
  have "column_names Y = column_names X"
    using transform_Inr(1) [OF assms(2)] fit_Inr(2) [OF assms(1)] by simp
  then have "length (map fst (columns Y)) = length (map fst (columns X))"
    by (simp add: column_names_def)
  then show l: "length (columns Y) = length (columns X)" by simp
  have x: "columns X = map fst (zip (columns X) (columns Y))"
    and y: "columns Y = map snd (zip (columns X) (columns Y))"
    using l by simp_all
  have "map (\<lambda>p. sort (remdups (snd (fst p)))) (zip (columns X) (columns Y))
        = map (\<lambda>cv. sort (remdups (snd cv))) (map fst (zip (columns X) (columns Y)))"
    by (simp only: map_map comp_def)
  also have "\<dots> = map (\<lambda>cv. sort (remdups (snd cv))) (columns X)"
    using l by simp
  finally show c: "categories enc
      = map (\<lambda>p. sort (remdups (snd (fst p)))) (zip (columns X) (columns Y))"
    using fit_Inr(3) [OF assms(1)] by simp
  have "codes = map (\<lambda>(cats, cv). map (encode_value (- 1) cats) (snd cv))
                  (zip (map (\<lambda>cv. sort (remdups (snd cv))) (columns X)) (columns Y))"
    using transform_Inr(2) [OF assms(2)] fit_Inr(1,3) [OF assms(1)] by simp
  then show "codes = map (\<lambda>p. map (encode_value (- 1) (sort (remdups (snd (fst p))))) (snd (snd p)))
                   (zip (columns X) (columns Y))"
    by (simp add: zip_map1 case_prod_unfold)
qed

lemma inverse_transform_after_transform:
  assumes "fit (- 1) X = Inr enc" and "transform enc Y = Inr codes"
  shows "inverse_transform enc codes
         = Inr (map (\<lambda>p. map (\<lambda>s. if s \<in> set (snd (fst p)) then Some s else None) (snd (snd p)))
                  (zip (columns X) (columns Y)))"
proof -
  let ?L = "zip (columns X) (columns Y)"
  let ?cat = "\<lambda>p. sort (remdups (snd (fst p)))"
  note sh = fit_transform_shape [OF assms]
  have u: "unknown_value enc = - 1" using fit_Inr(1) [OF assms(1)] .
  have len: "length codes = length (categories enc)"
    by (simp add: sh(2,3))
  have z: "zip (categories enc) codes
           = map (\<lambda>p. (?cat p, map (encode_value (- 1) (?cat p)) (snd (snd p)))) ?L"
    by (simp only: sh(2) sh(3) zip_map_map) (simp add: zip_same_conv_map)
  have inner: "collect (map (inverse_transform_value (- 1) (?cat p))
                          (map (encode_value (- 1) (?cat p)) (snd (snd p))))
               = Inr (map (\<lambda>s. if s \<in> set (snd (fst p)) then Some s else None) (snd (snd p)))" for p
  proof -
    have "collect (map (\<lambda>s. inverse_transform_value (- 1) (?cat p) (encode_value (- 1) (?cat p) s))
                     (snd (snd p)))
          = Inr (map (\<lambda>s. if s \<in> set (snd (fst p)) then Some s else None) (snd (snd p)))"
      by (rule collect_map_Inr) (simp add: inverse_encode_value)
    then show ?thesis by (simp add: comp_def)
  qed
  have "inverse_transform enc codes
        = collect (map (\<lambda>p. collect (map (inverse_transform_value (- 1) (?cat p))
                          (map (encode_value (- 1) (?cat p)) (snd (snd p))))) ?L)"
    by (simp add: inverse_transform_def len u z comp_def)
  also have "\<dots> = Inr (map (\<lambda>p. map (\<lambda>s. if s \<in> set (snd (fst p)) then Some s else None)
                                 (snd (snd p))) ?L)"
    by (rule collect_map_Inr) (rule inner)
  finally show ?thesis .
qed

lemma transform_unseen_iff:
  assumes "fit (- 1) X = Inr enc" and "transform enc Y = Inr codes"
  shows "list_all2 (\<lambda>p col. list_all2 (\<lambda>s code. (s \<notin> set (snd (fst p))) = (code = - 1))
                               (snd (snd p)) col)
           (zip (columns X) (columns Y)) codes"
proof -
  have "list_all2 (\<lambda>s code. (s \<notin> set vs) = (code = - 1)) ss
          (map (encode_value (- 1) (sort (remdups vs))) ss)" for vs ss
    using encode_value_unseen_iff [of _ "sort (remdups vs)"]
    by (simp add: list_all2_map2 list_all2_same)
  then show ?thesis
    by (simp add: fit_transform_shape(3) [OF assms] list_all2_map2 list_all2_same)
qed

text \<open>
  Claim C6. For an encoder fitted as the trainer fits it and any frame it transforms:
  decoding the codes that \<^verbatim>\<open>transform\<close> returns gives back every string that was
  observed at fit in its column (and nothing for the others); \<^verbatim>\<open>transform\<close> returns -1
  exactly at the strings not observed at fit; and the encoder that \<^verbatim>\<open>model_fn\<close> loads
  from the directory \<^verbatim>\<open>save_model\<close> wrote is the saved one, with the same categories, so
  its \<^verbatim>\<open>transform\<close> returns the same codes.
\<close>

theorem encoder_round_trip:
  assumes "fit (- 1) X = Inr enc" and "transform enc Y = Inr codes"
  shows "inverse_transform enc codes
           = Inr (map (\<lambda>p. map (\<lambda>s. if s \<in> set (snd (fst p)) then Some s else None)
                               (snd (snd p)))
                    (zip (columns X) (columns Y)))
       \<and> list_all2 (\<lambda>p col. list_all2 (\<lambda>s code. (s \<notin> set (snd (fst p))) = (code = - 1))
                                 (snd (snd p)) col)
           (zip (columns X) (columns Y)) codes
       \<and> model_fn (save_model fs m enc names model_dir) model_dir
           = Inr (\<lparr>model = Some m, encoder = Some enc, feature_names = Some names\<rparr>, m)
       \<and> (case model_fn (save_model fs m enc names model_dir) model_dir of
             Inl e \<Rightarrow> False
           | Inr (st, b) \<Rightarrow>
               (case encoder st of
                  None \<Rightarrow> False
                | Some enc' \<Rightarrow>
                    categories enc' = categories enc
                    \<and> unknown_value enc' = unknown_value enc
                    \<and> transform enc' Y = Inr codes))"
  using inverse_transform_after_transform [OF assms] transform_unseen_iff [OF assms] assms(2)
  by (simp add: model_fn_save_model)

theorem encoder_round_trip_witness:
  "fit (- 1) \<lparr>n_rows = 3, columns = [(''IP_API_COUNTRY_CODE'', [''US'', ''CA'', ''US''])]\<rparr>
     = Inr \<lparr>unknown_value = - 1, feature_names_in = [''IP_API_COUNTRY_CODE''],
            categories = [[''CA'', ''US'']]\<rparr>
   \<and> transform \<lparr>unknown_value = - 1, feature_names_in = [''IP_API_COUNTRY_CODE''],
                 categories = [[''CA'', ''US'']]\<rparr>
        \<lparr>n_rows = 3, columns = [(''IP_API_COUNTRY_CODE'', [''US'', ''CA'', ''MX''])]\<rparr>
     = Inr [[1, 0, - 1]]
   \<and> inverse_transform \<lparr>unknown_value = - 1, feature_names_in = [''IP_API_COUNTRY_CODE''],
                         categories = [[''CA'', ''US'']]\<rparr> [[1, 0, - 1]]
     = Inr [[Some ''US'', Some ''CA'', None]]
   \<and> model_fn
        (save_model Map.empty (\<lambda>row. 0)
           \<lparr>unknown_value = - 1, feature_names_in = [''IP_API_COUNTRY_CODE''],
            categories = [[''CA'', ''US'']]\<rparr>
           [''IP_API_COUNTRY_CODE_ENCODED''] ''/opt/ml/model'')
        ''/opt/ml/model''
      = Inr (\<lparr>model = Some (\<lambda>row. 0),
              encoder = Some \<lparr>unknown_value = - 1, feature_names_in = [''IP_API_COUNTRY_CODE''],
                              categories = [[''CA'', ''US'']]\<rparr>,
              feature_names = Some [''IP_API_COUNTRY_CODE_ENCODED'']\<rparr>, (\<lambda>row. 0))"
proof -
  have f: "fit (- 1) \<lparr>n_rows = 3, columns = [(''IP_API_COUNTRY_CODE'', [''US'', ''CA'', ''US''])]\<rparr>
     = Inr \<lparr>unknown_value = - 1, feature_names_in = [''IP_API_COUNTRY_CODE''],
            categories = [[''CA'', ''US'']]\<rparr>"
    by (simp add: fit_def column_names_def)
  have t: "transform \<lparr>unknown_value = - 1, feature_names_in = [''IP_API_COUNTRY_CODE''],
                 categories = [[''CA'', ''US'']]\<rparr>
        \<lparr>n_rows = 3, columns = [(''IP_API_COUNTRY_CODE'', [''US'', ''CA'', ''MX''])]\<rparr>
     = Inr [[1, 0, - 1]]"
    by (simp add: transform_def column_names_def encode_value_def)
  show ?thesis
    using f t
      encoder_round_trip [OF f t, of Map.empty "\<lambda>row. 0" "[''IP_API_COUNTRY_CODE_ENCODED'']"
        "''/opt/ml/model''"]
    by simp
qed

section \<open>Joining scores back to identifiers\<close>

text \<open>
  Claim C7: with as many IDs as predictions, the join pairs every ID with the score at
  its row position and keeps every ID. The index the job joins on is
  \<^verbatim>\<open>monotonically_increasing_id()\<close>, which is the row position only within one
  partition. With four IDs read as partitions of three and one row, and four predictions
  read as two partitions of two rows, the third ID is dropped and the fourth gets the
  third score; with the same partition layout on both sides the join is positional.
\<close>

theorem row_index_join_drops_and_mispairs:
  "result_df [[''id1'', ''id2'', ''id3''], [''id4'']] [[''0.11'', ''0.22''], [''0.33'', ''0.44'']]
     = [(''id1'', ''0.11''), (''id2'', ''0.22''), (''id4'', ''0.33'')]
   \<and> result_df [[''id1'', ''id2''], [''id3'', ''id4'']] [[''0.11'', ''0.22''], [''0.33'', ''0.44'']]
     = [(''id1'', ''0.11''), (''id2'', ''0.22''), (''id3'', ''0.33''), (''id4'', ''0.44'')]
   \<and> map (map snd) (with_row_idx [[''id1'', ''id2'', ''id3''], [''id4'']])
     = [[0, 1, 2], [8589934592]]"
  by code_simp

section \<open>The feature contract across the scripts\<close>

text \<open>
  Claim C8, as stated: target column name and the three ordered lists are identical in all
  four scripts. It fails on the target: the serving script \<^verbatim>\<open>sagemaker/inference.py\<close>
  declares no \<^verbatim>\<open>TARGET\<close> at all, so its contract differs from the other three.
\<close>

theorem contract_four_way_counterexample:
  "\<not> (contract_extract_training = contract_extract_inference
      \<and> contract_extract_inference = contract_training_script
      \<and> contract_training_script = contract_inference)"
  by (simp add: contract_training_script_def contract_inference_def)

text \<open>
  Claim C8, amended: the ordered boolean, categorical and numeric lists are element for
  element identical (same names, same order) in all four scripts, and the target column
  name is identical in the three scripts that declare one (both extractors and the
  training script); the serving script declares no target.
\<close>

theorem contract_lists_identical:
  "boolean_features contract_extract_inference = boolean_features contract_extract_training
   \<and> boolean_features contract_training_script = boolean_features contract_extract_training
   \<and> boolean_features contract_inference = boolean_features contract_extract_training
   \<and> categorical_features contract_extract_inference = categorical_features contract_extract_training
   \<and> categorical_features contract_training_script = categorical_features contract_extract_training
   \<and> categorical_features contract_inference = categorical_features contract_extract_training
   \<and> numeric_features contract_extract_inference = numeric_features contract_extract_training
   \<and> numeric_features contract_training_script = numeric_features contract_extract_training
   \<and> numeric_features contract_inference = numeric_features contract_extract_training
   \<and> contract_extract_inference = contract_extract_training
   \<and> contract_training_script = contract_extract_training
   \<and> target contract_extract_training = Some ''IPQS_DEVICE_FP_FRAUD_SCORE''
   \<and> target contract_inference = None"
  by (simp add: contract_extract_training_def contract_extract_inference_def
      contract_training_script_def contract_inference_def
      boolean_features_agree categorical_features_agree numeric_features_agree target_agree
      TARGET_extract_training_def)


section \<open>A missing feature column at serving time\<close>

text \<open>
  Claim C9. When a column that the persisted feature names require is absent from the
  input (a boolean or numeric column whose name is persisted, or a categorical column
  whose encoded name is persisted; more generally any persisted name that the assembly
  of this input does not produce), \<^verbatim>\<open>predict_fn\<close> raises and returns no scores. Whenever it
  returns, it returns one score for every row of the batch.
\<close>

theorem missing_feature_column_fatal:
  assumes "feature_names st = Some names"
  shows "(c \<notin> set (column_names input_data) \<longrightarrow>
            (c \<in> set names \<and> c \<in> set (BOOLEAN_FEATURES_inference @ NUMERIC_FEATURES_inference))
            \<or> (c @ ''_ENCODED'' \<in> set names \<and> c \<in> set CATEGORICAL_FEATURES_inference) \<longrightarrow>
            (\<exists>e. predict_fn num_str st input_data m = Inl e))
       \<and> (n \<in> set names \<longrightarrow>
            n \<notin> set (filter (\<lambda>c. c \<in> set (column_names input_data)) BOOLEAN_FEATURES_inference
                      @ map (\<lambda>c. c @ ''_ENCODED'')
                          (filter (\<lambda>c. c \<in> set (column_names input_data))
                             CATEGORICAL_FEATURES_inference)
                      @ filter (\<lambda>c. c \<in> set (column_names input_data)) NUMERIC_FEATURES_inference) \<longrightarrow>
            (\<exists>e. predict_fn num_str st input_data m = Inl e))
       \<and> (predict_fn num_str st input_data m = Inr scores \<longrightarrow>
            length scores = n_rows input_data)"
proof (intro conjI impI)
  assume a: "c \<notin> set (column_names input_data)"
    and r: "(c \<in> set names \<and> c \<in> set (BOOLEAN_FEATURES_inference @ NUMERIC_FEATURES_inference))
            \<or> (c @ ''_ENCODED'' \<in> set names \<and> c \<in> set CATEGORICAL_FEATURES_inference)"
  from r show "\<exists>e. predict_fn num_str st input_data m = Inl e"
  proof
    assume "c \<in> set names \<and> c \<in> set (BOOLEAN_FEATURES_inference @ NUMERIC_FEATURES_inference)"
    then show ?thesis
      using predict_fn_missing_name [OF assms, of c input_data num_str m]
        absent_raw_column_not_assembled(1) [OF a] by blast
  next
    assume "c @ ''_ENCODED'' \<in> set names \<and> c \<in> set CATEGORICAL_FEATURES_inference"
    then show ?thesis
      using predict_fn_missing_name [OF assms, of "c @ ''_ENCODED''" input_data num_str m]
        absent_raw_column_not_assembled(2) [OF a] by blast
  qed
next
  assume "n \<in> set names"
    and "n \<notin> set (filter (\<lambda>c. c \<in> set (column_names input_data)) BOOLEAN_FEATURES_inference
                      @ map (\<lambda>c. c @ ''_ENCODED'')
                          (filter (\<lambda>c. c \<in> set (column_names input_data))
                             CATEGORICAL_FEATURES_inference)
                      @ filter (\<lambda>c. c \<in> set (column_names input_data)) NUMERIC_FEATURES_inference)"
  then show "\<exists>e. predict_fn num_str st input_data m = Inl e"
    using predict_fn_missing_name [OF assms] by blast
next
  assume "predict_fn num_str st input_data m = Inr scores"
  then show "length scores = n_rows input_data"
    by (rule predict_fn_length)
qed

text \<open>
  At a state persisted with the names of a hosting flag and an encoded country code: a
  batch without the hosting column is refused with a \<^verbatim>\<open>KeyError\<close>, a batch with both
  columns gets one score per row.
\<close>

theorem missing_feature_column_fatal_witness:
  "feature_names
      \<lparr>model = None,
       encoder = Some \<lparr>unknown_value = - 1, feature_names_in = [''IP_API_COUNTRY_CODE''],
                       categories = [[''CA'', ''US'']]\<rparr>,
       feature_names = Some [''IP_API_HOSTING'', ''IP_API_COUNTRY_CODE_ENCODED'']\<rparr>
     = Some [''IP_API_HOSTING'', ''IP_API_COUNTRY_CODE_ENCODED'']
   \<and> ''IP_API_HOSTING''
       \<notin> set (column_names
          \<lparr>n_rows = 2, columns = [(''IP_API_COUNTRY_CODE'', [StrV ''US'', StrV ''MX''])]\<rparr>)
   \<and> ''IP_API_HOSTING'' \<in> set [''IP_API_HOSTING'', ''IP_API_COUNTRY_CODE_ENCODED'']
   \<and> ''IP_API_HOSTING'' \<in> set (BOOLEAN_FEATURES_inference @ NUMERIC_FEATURES_inference)
   \<and> predict_fn (\<lambda>n. [])
        \<lparr>model = None,
         encoder = Some \<lparr>unknown_value = - 1, feature_names_in = [''IP_API_COUNTRY_CODE''],
                         categories = [[''CA'', ''US'']]\<rparr>,
         feature_names = Some [''IP_API_HOSTING'', ''IP_API_COUNTRY_CODE_ENCODED'']\<rparr>
        \<lparr>n_rows = 2, columns = [(''IP_API_COUNTRY_CODE'', [StrV ''US'', StrV ''MX''])]\<rparr>
        (\<lambda>row. 0)
      = Inl (KeyError [''IP_API_HOSTING''])
   \<and> predict_fn (\<lambda>n. [])
        \<lparr>model = None,
         encoder = Some \<lparr>unknown_value = - 1, feature_names_in = [''IP_API_COUNTRY_CODE''],
                         categories = [[''CA'', ''US'']]\<rparr>,
         feature_names = Some [''IP_API_HOSTING'', ''IP_API_COUNTRY_CODE_ENCODED'']\<rparr>
        \<lparr>n_rows = 2,
         columns = [(''IP_API_COUNTRY_CODE'', [StrV ''US'', StrV ''MX'']),
                    (''IP_API_HOSTING'', [NumV 1, NumV 0])]\<rparr>
        (\<lambda>row. 0)
      = Inr [0, 0]
   \<and> length [0 :: rat, 0]
      = n_rows \<lparr>n_rows = 2,
         columns = [(''IP_API_COUNTRY_CODE'', [StrV ''US'', StrV ''MX'']),
                    (''IP_API_HOSTING'', [NumV 1 :: cell, NumV 0])]\<rparr>"
proof -
  let ?st = "\<lparr>model = None,
       encoder = Some \<lparr>unknown_value = - 1, feature_names_in = [''IP_API_COUNTRY_CODE''],
                       categories = [[''CA'', ''US'']]\<rparr>,
       feature_names = Some [''IP_API_HOSTING'', ''IP_API_COUNTRY_CODE_ENCODED'']\<rparr>"
  let ?bad = "\<lparr>n_rows = 2, columns = [(''IP_API_COUNTRY_CODE'', [StrV ''US'', StrV ''MX''])]\<rparr> :: cell frame"
  let ?good = "\<lparr>n_rows = 2,
         columns = [(''IP_API_COUNTRY_CODE'', [StrV ''US'', StrV ''MX'']),
                    (''IP_API_HOSTING'', [NumV 1, NumV 0])]\<rparr> :: cell frame"
  have f: "feature_names ?st = Some [''IP_API_HOSTING'', ''IP_API_COUNTRY_CODE_ENCODED'']"
    by simp
  have a: "''IP_API_HOSTING'' \<notin> set (column_names ?bad)"
    by (simp add: column_names_def)
  have b: "''IP_API_HOSTING'' \<in> set (BOOLEAN_FEATURES_inference @ NUMERIC_FEATURES_inference)"
    by (simp add: BOOLEAN_FEATURES_inference_def)
  have p: "predict_fn (\<lambda>n. []) ?st ?bad (\<lambda>row. 0) = Inl (KeyError [''IP_API_HOSTING''])"
    by code_simp
  have q: "predict_fn (\<lambda>n. []) ?st ?good (\<lambda>row. 0) = Inr [0, 0]"
    by code_simp
  have r: "(''IP_API_HOSTING'' \<in> set [''IP_API_HOSTING'', ''IP_API_COUNTRY_CODE_ENCODED'']
            \<and> ''IP_API_HOSTING'' \<in> set (BOOLEAN_FEATURES_inference @ NUMERIC_FEATURES_inference))
           \<or> (''IP_API_HOSTING'' @ ''_ENCODED'' \<in> set [''IP_API_HOSTING'', ''IP_API_COUNTRY_CODE_ENCODED'']
            \<and> ''IP_API_HOSTING'' \<in> set CATEGORICAL_FEATURES_inference)"
    using b by simp
  have "\<exists>e. predict_fn (\<lambda>n. []) ?st ?bad (\<lambda>row. 0) = Inl e"
    using missing_feature_column_fatal [OF f, of "''IP_API_HOSTING''" ?bad "\<lambda>n. []" "\<lambda>row. 0"] a r
    by blast
  moreover have "length [0 :: rat, 0] = n_rows ?good"
    using missing_feature_column_fatal [OF f, of _ ?good "\<lambda>n. []" "\<lambda>row. 0" _ "[0, 0]"] q
    by blast
  ultimately show ?thesis
    using f a b p q by simp
qed

section \<open>Content types of the serving interface\<close>

text \<open>
  Claim C10. \<^verbatim>\<open>input_fn\<close> raises for every content type other than \<^verbatim>\<open>text/csv\<close> and
  \<^verbatim>\<open>application/json\<close>. \<^verbatim>\<open>output_fn\<close> raises exactly for the accept types other than
  \<^verbatim>\<open>text/csv\<close>, \<^verbatim>\<open>application/json\<close> and \<^verbatim>\<open>*/*\<close>, the last being treated like
  \<^verbatim>\<open>text/csv\<close>; for a CSV accept the output is the predictions' texts separated by
  newlines, one per line, and for a JSON accept it is a JSON array of them.
\<close>

theorem content_type_dispatch:
  "(request_content_type \<noteq> ''text/csv'' \<longrightarrow> request_content_type \<noteq> ''application/json'' \<longrightarrow>
      input_fn read_csv json_loads frame_of_records request_body request_content_type
        = Inl (ValueError (''Unsupported content type: '' @ request_content_type)))
   \<and> (accept \<noteq> ''text/csv'' \<longrightarrow> accept \<noteq> ''application/json'' \<longrightarrow> accept \<noteq> ''*/*'' \<longrightarrow>
      output_fn str_p json_p prediction accept
        = Inl (ValueError (''Unsupported accept type: '' @ accept)))
   \<and> ((\<exists>e. output_fn str_p json_p prediction accept = Inl e)
        \<longleftrightarrow> accept \<noteq> ''text/csv'' \<and> accept \<noteq> ''application/json'' \<and> accept \<noteq> ''*/*'')
   \<and> output_fn str_p json_p prediction ''text/csv''
        = Inr (join [CHR 0x0A] (map str_p prediction))
   \<and> output_fn str_p json_p prediction ''*/*''
        = output_fn str_p json_p prediction ''text/csv''
   \<and> output_fn str_p json_p prediction ''application/json''
        = Inr (''['' @ join '', '' (map json_p prediction) @ '']'')"
  by (auto simp: input_fn_def output_fn_def)

theorem content_type_dispatch_witness:
  "\<forall>read_csv json_loads frame_of_records str_p json_p.
     ''text/xml'' \<noteq> ''text/csv'' \<and> ''text/xml'' \<noteq> ''application/json'' \<and> ''text/xml'' \<noteq> ''*/*''
     \<and> input_fn read_csv json_loads frame_of_records [] ''text/xml''
         = Inl (ValueError ''Unsupported content type: text/xml'')
     \<and> output_fn str_p json_p [1 / 4, 3 / 4] ''text/xml''
         = Inl (ValueError ''Unsupported accept type: text/xml'')
     \<and> output_fn str_p json_p [1 / 4, 3 / 4] ''text/csv''
         = Inr (str_p (1 / 4) @ [CHR 0x0A] @ str_p (3 / 4))
     \<and> output_fn str_p json_p [1 / 4, 3 / 4] ''application/json''
         = Inr (''['' @ json_p (1 / 4) @ '', '' @ json_p (3 / 4) @ '']'')"
proof (intro allI)
  fix read_csv :: "string \<Rightarrow> string list \<Rightarrow> py_error + cell frame"
    and json_loads :: "string \<Rightarrow> py_error + json"
    and frame_of_records :: "json list \<Rightarrow> py_error + cell frame"
    and str_p json_p :: "rat \<Rightarrow> string"
  show "''text/xml'' \<noteq> ''text/csv'' \<and> ''text/xml'' \<noteq> ''application/json'' \<and> ''text/xml'' \<noteq> ''*/*''
     \<and> input_fn read_csv json_loads frame_of_records [] ''text/xml''
         = Inl (ValueError ''Unsupported content type: text/xml'')
     \<and> output_fn str_p json_p [1 / 4, 3 / 4] ''text/xml''
         = Inl (ValueError ''Unsupported accept type: text/xml'')
     \<and> output_fn str_p json_p [1 / 4, 3 / 4] ''text/csv''
         = Inr (str_p (1 / 4) @ [CHR 0x0A] @ str_p (3 / 4))
     \<and> output_fn str_p json_p [1 / 4, 3 / 4] ''application/json''
         = Inr (''['' @ json_p (1 / 4) @ '', '' @ json_p (3 / 4) @ '']'')"
    using content_type_dispatch [of "''text/xml''" read_csv json_loads frame_of_records "[]"
        "''text/xml''" str_p json_p "[1 / 4, 3 / 4]"]
    by simp
qed


end
